theory Spec2Isabelle
  imports Main "HOL-Library.Sublist" "HOL-Library.AList"
begin

section \<open>The screenshot service of \<open>main.py\<close>\<close>

text \<open>
  The service has one source file. Its handlers validate the request, call
  \<open>capture_screenshot\<close>, which drives an external browser, and keep the images in one
  directory. The browser (Playwright), the web framework (FastAPI with pydantic) and the
  file system are not part of the repository: the browser is a parameter that says which
  of its calls raise, the directory is an association list in enumeration order, and the
  framework is the small part of its documented behaviour that the declarations of
  \<open>main.py\<close> rely on.
\<close>

subsection \<open>Python values: exceptions, JSON, replies\<close>

text \<open>
  The exceptions that can travel through the handlers. \<open>HTTPException\<close> is a subclass of
  \<open>Exception\<close> in Starlette, so an \<open>except Exception\<close> clause catches it like the rest.
\<close>

datatype exc =
    HTTPException nat string
  | RequestValidationError string
  | TypeError string
  | EngineError string
  | OSError string
  | RuntimeError string

definition digit_char :: "nat \<Rightarrow> char" where
  "digit_char n = ''0123456789'' ! n"

fun str_nat :: "nat \<Rightarrow> string" where
  "str_nat n = (if n < 10 then [digit_char n]
                else str_nat (n div 10) @ [digit_char (n mod 10)])"

declare str_nat.simps [simp del]

text \<open>
  \<open>str(e)\<close>. Starlette prints an \<open>HTTPException\<close> as its status code, a colon and
  its detail; the other exceptions print their message.
\<close>

fun str_exc :: "exc \<Rightarrow> string" where
  "str_exc (HTTPException code detail) = str_nat code @ '': '' @ detail"
| "str_exc (RequestValidationError m) = m"
| "str_exc (TypeError m) = m"
| "str_exc (EngineError m) = m"
| "str_exc (OSError m) = m"
| "str_exc (RuntimeError m) = m"

datatype json =
    JBool bool
  | JNum int
  | JStr string
  | JArr "json list"
  | JObj "(string \<times> json) list"

text \<open>
  What a handler returns: a JSON document, or a \<open>FileResponse\<close> with its path, media
  type and download name.
\<close>

datatype reply =
    Json json
  | FileResponse string string string

subsection \<open>The storage directory and the browser\<close>

text \<open>
  An entry of \<open>TEMP_DIR\<close>: a regular file with its bytes and creation time, or
  anything else that \<open>exists()\<close> but is not a file (a directory).
\<close>

datatype entry =
    RegularFile "nat list" nat
  | Directory

fun is_file :: "entry \<Rightarrow> bool" where
  "is_file (RegularFile bs t) = True"
| "is_file Directory = False"

text \<open>
  The calls made to the browser, in the order of \<open>capture_screenshot\<close>, with the
  arguments that vary; the fixed ones (headless mode and flags, the user agent,
  \<open>wait_until\<close>) are left out. The screenshot call carries its options dictionary.
\<close>

datatype pyval = PNone | PBool bool | PInt int | PStr string

datatype call =
    CLaunch
  | CNewContext int int
  | CNewPage
  | CSetDefaultTimeout "int option"
  | CGoto string
  | CSleep nat
  | CScreenshot "(string \<times> pyval) list"
  | CClose

text \<open>
  An entry of the record of calls to \<open>capture_screenshot\<close>, with the arguments
  of the call in the order of its signature.
\<close>

datatype invocation =
  CaptureCall string int int "bool option" string "int option" "int option"

text \<open>
  The state outside the handlers: the entries of \<open>TEMP_DIR\<close> in the order the
  directory enumerates them, the number of browser processes that were launched and not
  closed (a context lives inside its browser and ends with it), the calls the browser
  received, and the record of the calls to \<open>capture_screenshot\<close>, which no handler
  reads.
\<close>

record world =
  storage :: "(string \<times> entry) list"
  browsers :: nat
  engine_calls :: "call list"
  captures :: "invocation list"

text \<open>
  The browser as \<open>capture_screenshot\<close> sees it: each step either returns or raises
  with a message; a screenshot that returns has written \<open>image\<close> to its path at time
  \<open>clock\<close>.
\<close>

datatype step = Launch | NewContext | NewPage | SetDefaultTimeout | Goto | Screenshot

record engine =
  raises :: "step \<Rightarrow> string option"
  image :: "nat list"
  clock :: nat

definition TEMP_DIR :: string where
  "TEMP_DIR = ''/tmp/screenshots''"

text \<open>One call to the browser: it is recorded, and raises when the browser says so.\<close>

definition engine_call :: "engine \<Rightarrow> step \<Rightarrow> call \<Rightarrow> world \<Rightarrow> (exc + unit) \<times> world" where
  "engine_call eng st c w =
     (let w' = w\<lparr>engine_calls := engine_calls w @ [c]\<rparr> in
      case raises eng st of
        Some msg \<Rightarrow> (Inl (EngineError msg), w')
      | None \<Rightarrow> (Inr (), w'))"

text \<open>Sequencing of statements: an exception skips the rest.\<close>

definition and_then ::
  "(exc + 'a) \<times> world \<Rightarrow> ('a \<Rightarrow> world \<Rightarrow> (exc + 'b) \<times> world) \<Rightarrow> (exc + 'b) \<times> world" where
  "and_then r f = (case r of (Inl e, w) \<Rightarrow> (Inl e, w) | (Inr x, w) \<Rightarrow> f x w)"

fun of_int_option :: "int option \<Rightarrow> pyval" where
  "of_int_option None = PNone"
| "of_int_option (Some i) = PInt i"

fun of_bool_option :: "bool option \<Rightarrow> pyval" where
  "of_bool_option None = PNone"
| "of_bool_option (Some b) = PBool b"

subsection \<open>\<open>capture_screenshot\<close>\<close>

text \<open>The options of \<open>page.screenshot\<close>, lines 87 to 96.\<close>

definition screenshot_options ::
  "string \<Rightarrow> bool option \<Rightarrow> string \<Rightarrow> int option \<Rightarrow> (string \<times> pyval) list" where
  "screenshot_options filepath full_page_arg format_arg quality_arg =
     (let opts = [(''path'', PStr filepath), (''full_page'', of_bool_option full_page_arg)] in
      if format_arg = ''jpeg''
      then opts @ [(''type'', PStr ''jpeg''), (''quality'', of_int_option quality_arg)]
      else opts @ [(''type'', PStr ''png'')])"

text \<open>The body of the \<open>try\<close> block, lines 70 to 98.\<close>

definition capture_body ::
  "engine \<Rightarrow> string \<Rightarrow> string \<Rightarrow> int \<Rightarrow> int \<Rightarrow> bool option \<Rightarrow> string \<Rightarrow> int option \<Rightarrow>
   int option \<Rightarrow> world \<Rightarrow> (exc + unit) \<times> world" where
  "capture_body eng filename url_arg width_arg height_arg full_page_arg format_arg quality_arg
     timeout_arg w =
     and_then (engine_call eng NewContext (CNewContext width_arg height_arg) w) (\<lambda>_ w.
     and_then (engine_call eng NewPage CNewPage w) (\<lambda>_ w.
     and_then (engine_call eng SetDefaultTimeout (CSetDefaultTimeout timeout_arg) w) (\<lambda>_ w.
     and_then (engine_call eng Goto (CGoto url_arg) w) (\<lambda>_ w.
     and_then (Inr (), w\<lparr>engine_calls := engine_calls w @ [CSleep 2]\<rparr>) (\<lambda>_ w.
     and_then (engine_call eng Screenshot
                 (CScreenshot (screenshot_options (TEMP_DIR @ ''/'' @ filename)
                     full_page_arg format_arg quality_arg)) w) (\<lambda>_ w.
       (Inr (), w\<lparr>storage :=
          AList.update filename (RegularFile (image eng) (clock eng)) (storage w)\<rparr>)))))))"

text \<open>\<open>finally: await browser.close()\<close>: the browser ends whatever the body did.\<close>

definition browser_close :: "world \<Rightarrow> world" where
  "browser_close w = w\<lparr>browsers := browsers w - 1, engine_calls := engine_calls w @ [CClose]\<rparr>"

text \<open>
  \<open>capture_screenshot\<close>, lines 50 to 103. \<open>hex\<close> is \<open>uuid.uuid4().hex\<close>. A launch
  that raises leaves no browser and skips the \<open>try\<close> statement.
\<close>

definition capture_screenshot ::
  "string \<Rightarrow> engine \<Rightarrow> string \<Rightarrow> int \<Rightarrow> int \<Rightarrow> bool option \<Rightarrow> string \<Rightarrow> int option \<Rightarrow>
   int option \<Rightarrow> world \<Rightarrow> (exc + string) \<times> world" where
  "capture_screenshot hex eng url_arg width_arg height_arg full_page_arg format_arg quality_arg
     timeout_arg w0 =
     (let w = w0\<lparr>captures := captures w0 @
                 [CaptureCall url_arg width_arg height_arg full_page_arg format_arg
                    quality_arg timeout_arg]\<rparr>;
          file_extension = (if format_arg = ''png'' then ''png'' else ''jpg'');
          filename = ''screenshot_'' @ hex @ ''.'' @ file_extension
      in case engine_call eng Launch CLaunch w of
           (Inl e, w1) \<Rightarrow> (Inl e, w1)
         | (Inr _, w1) \<Rightarrow>
             (case capture_body eng filename url_arg width_arg height_arg full_page_arg
                     format_arg quality_arg timeout_arg (w1\<lparr>browsers := Suc (browsers w1)\<rparr>) of
                (Inl e, w2) \<Rightarrow> (Inl e, browser_close w2)
              | (Inr _, w2) \<Rightarrow> (Inr filename, browser_close w2)))"

subsection \<open>The request model and the two screenshot handlers\<close>

text \<open>
  \<open>ScreenshotRequest\<close>, lines 18 to 25, after pydantic has read the body: \<open>url\<close> is
  \<open>str(request.url)\<close>, and each \<open>Optional\<close> field holds a value or \<open>None\<close>.
\<close>

record ScreenshotRequest =
  url :: string
  width :: "int option"
  height :: "int option"
  full_page :: "bool option"
  format :: "string option"
  quality :: "int option"
  timeout :: "int option"

definition quoted :: "string \<Rightarrow> string" where
  "quoted s = CHR 0x27 # s @ [CHR 0x27]"

text \<open>
  \<open>if x < lo or x > hi: raise HTTPException(400, detail)\<close>, giving back the integer
  that passed. Comparing \<open>None\<close> with an integer raises \<open>TypeError\<close>.
\<close>

definition check_range :: "int option \<Rightarrow> int \<Rightarrow> int \<Rightarrow> string \<Rightarrow> exc + int" where
  "check_range x lo hi detail =
     (case x of
        None \<Rightarrow> Inl (TypeError (quoted ''<'' @
                  '' not supported between instances of '' @ quoted ''NoneType'' @
                  '' and '' @ quoted ''int''))
      | Some v \<Rightarrow> if v < lo \<or> v > hi then Inl (HTTPException 400 detail) else Inr v)"

text \<open>
  \<open>"png" if format == "png" else "jpeg"\<close>: the expression of line 113 and of line 162.
\<close>

definition format_normalized :: "string \<Rightarrow> string" where
  "format_normalized fmt = (if fmt = ''png'' then ''png'' else ''jpeg'')"

text \<open>The exception of line 110.\<close>

definition format_error :: exc where
  "format_error =
     HTTPException 400 (''Format must be '' @ quoted ''png'' @ '' or '' @ quoted ''jpeg'')"

text \<open>The body of the \<open>try\<close> block of \<open>take_screenshot_post\<close>, lines 108 to 140.\<close>

definition post_try ::
  "string \<Rightarrow> engine \<Rightarrow> ScreenshotRequest \<Rightarrow> world \<Rightarrow> (exc + reply) \<times> world" where
  "post_try hex eng request w =
     (case format request of
        None \<Rightarrow> (Inl format_error, w)
      | Some f \<Rightarrow>
        if f \<notin> set [''png'', ''jpeg'', ''jpg''] then (Inl format_error, w)
        else
        (case (if format_normalized f = ''jpeg''
               then check_range (quality request) 1 100
                      ''Quality must be between 1 and 100 for JPEG''
               else Inr 0) of
          Inl e \<Rightarrow> (Inl e, w)
        | Inr _ \<Rightarrow>
        (case check_range (width request) 100 3840 ''Width must be between 100 and 3840'' of
          Inl e \<Rightarrow> (Inl e, w)
        | Inr width_ok \<Rightarrow>
        (case check_range (height request) 100 2160 ''Height must be between 100 and 2160'' of
          Inl e \<Rightarrow> (Inl e, w)
        | Inr height_ok \<Rightarrow>
        (case capture_screenshot hex eng (url request) width_ok height_ok
                (full_page request) (format_normalized f) (quality request)
                (timeout request) w of
          (Inl e, w') \<Rightarrow> (Inl e, w')
        | (Inr filename, w') \<Rightarrow>
            (Inr (Json (JObj [(''success'', JBool True), (''filename'', JStr filename),
                    (''message'', JStr ''Screenshot captured successfully'')])), w'))))))"

text \<open>
  \<open>take_screenshot_post\<close>, lines 105 to 143: the \<open>except Exception\<close> clause encloses
  the whole body, the \<open>raise\<close> statements of the validation included.
\<close>

definition take_screenshot_post ::
  "string \<Rightarrow> engine \<Rightarrow> ScreenshotRequest \<Rightarrow> world \<Rightarrow> (exc + reply) \<times> world" where
  "take_screenshot_post hex eng request w =
     (case post_try hex eng request w of
        (Inl e, w') \<Rightarrow>
          (Inl (HTTPException 500 (''Failed to capture screenshot: '' @ str_exc e)), w')
      | (Inr r, w') \<Rightarrow> (Inr r, w'))"

text \<open>The body of the \<open>try\<close> block of \<open>take_screenshot_get\<close>, lines 157 to 179.\<close>

definition get_try ::
  "string \<Rightarrow> engine \<Rightarrow> string \<Rightarrow> int \<Rightarrow> int \<Rightarrow> bool \<Rightarrow> string \<Rightarrow> int \<Rightarrow> int \<Rightarrow> world \<Rightarrow>
   (exc + reply) \<times> world" where
  "get_try hex eng url_arg width_arg height_arg full_page_arg format_arg quality_arg
     timeout_arg w =
     (if \<not> (prefix ''http://'' url_arg \<or> prefix ''https://'' url_arg)
      then (Inl (HTTPException 400 ''URL must start with http:// or https://''), w)
      else
        case capture_screenshot hex eng url_arg width_arg height_arg (Some full_page_arg)
               (format_normalized format_arg) (Some quality_arg) (Some timeout_arg) w of
          (Inl e, w') \<Rightarrow> (Inl e, w')
        | (Inr filename, w') \<Rightarrow>
            (Inr (Json (JObj [(''success'', JBool True), (''filename'', JStr filename),
                    (''message'', JStr ''Screenshot captured successfully''),
                    (''download_url'', JStr (''/download/'' @ filename))])), w'))"

text \<open>\<open>take_screenshot_get\<close>, lines 145 to 182, with the same enclosing clause.\<close>

definition take_screenshot_get ::
  "string \<Rightarrow> engine \<Rightarrow> string \<Rightarrow> int \<Rightarrow> int \<Rightarrow> bool \<Rightarrow> string \<Rightarrow> int \<Rightarrow> int \<Rightarrow> world \<Rightarrow>
   (exc + reply) \<times> world" where
  "take_screenshot_get hex eng url_arg width_arg height_arg full_page_arg format_arg
     quality_arg timeout_arg w =
     (case get_try hex eng url_arg width_arg height_arg full_page_arg format_arg quality_arg
             timeout_arg w of
        (Inl e, w') \<Rightarrow>
          (Inl (HTTPException 500 (''Failed to capture screenshot: '' @ str_exc e)), w')
      | (Inr r, w') \<Rightarrow> (Inr r, w'))"

subsection \<open>Download, delete and list\<close>

text \<open>
  What the file system finds under \<open>TEMP_DIR / filename\<close>. The enumerated entries are
  not all there is: \<open>.\<close> and \<open>..\<close> name directories in every directory, and a name
  longer than \<open>NAME_MAX\<close> bytes makes the system call fail with \<open>ENAMETOOLONG\<close>.
\<close>

definition NAME_MAX :: nat where
  "NAME_MAX = 255"

definition path_stat :: "world \<Rightarrow> string \<Rightarrow> exc + entry option" where
  "path_stat w filename =
     (if NAME_MAX < length filename then Inl (OSError ''File name too long'')
      else if filename = ''.'' \<or> filename = ''..'' then Inr (Some Directory)
      else Inr (map_of (storage w) filename))"

text \<open>
  \<open>filepath.exists()\<close>: true for whatever is found, a file or not, false when nothing is
  found; the failure on an over-long name is not one of those it turns into false.
\<close>

definition path_exists :: "world \<Rightarrow> string \<Rightarrow> exc + bool" where
  "path_exists w filename =
     (case path_stat w filename of
        Inl e \<Rightarrow> Inl e
      | Inr None \<Rightarrow> Inr False
      | Inr (Some _) \<Rightarrow> Inr True)"

text \<open>\<open>download_screenshot\<close>, lines 184 to 201.\<close>

definition download_screenshot :: "string \<Rightarrow> world \<Rightarrow> exc + reply" where
  "download_screenshot filename w =
     (case path_exists w filename of
        Inl e \<Rightarrow> Inl e
      | Inr False \<Rightarrow> Inl (HTTPException 404 ''Screenshot not found'')
      | Inr True \<Rightarrow>
          Inr (FileResponse (TEMP_DIR @ ''/'' @ filename)
                 (if suffix ''.png'' filename then ''image/png'' else ''image/jpeg'')
                 filename))"

text \<open>
  \<open>os.remove\<close>: it unlinks a regular file and raises on a directory and on a missing
  name.
\<close>

definition os_remove :: "string \<Rightarrow> world \<Rightarrow> exc + world" where
  "os_remove filename w =
     (case path_stat w filename of
        Inl e \<Rightarrow> Inl e
      | Inr None \<Rightarrow> Inl (OSError ''No such file or directory'')
      | Inr (Some Directory) \<Rightarrow> Inl (OSError ''Is a directory'')
      | Inr (Some (RegularFile bs t)) \<Rightarrow>
          Inr (w\<lparr>storage := AList.delete filename (storage w)\<rparr>))"

text \<open>
  \<open>delete_screenshot\<close>, lines 203 to 214: the existence test and the 404 come before
  the \<open>try\<close> statement, so nothing wraps them; a failure of \<open>os.remove\<close> is caught
  and leaves as a 500.
\<close>

definition delete_screenshot :: "string \<Rightarrow> world \<Rightarrow> (exc + reply) \<times> world" where
  "delete_screenshot filename w =
     (case path_exists w filename of
        Inl e \<Rightarrow> (Inl e, w)
      | Inr False \<Rightarrow> (Inl (HTTPException 404 ''Screenshot not found''), w)
      | Inr True \<Rightarrow>
          (case os_remove filename w of
             Inl e \<Rightarrow> (Inl (HTTPException 500 (''Failed to delete screenshot: '' @ str_exc e)), w)
           | Inr w' \<Rightarrow>
               (Inr (Json (JObj [(''success'', JBool True),
                       (''message'', JStr (''Screenshot '' @ filename @
                           '' deleted successfully''))])), w')))"

text \<open>The dictionary appended at lines 222 to 226.\<close>

fun file_info :: "string \<Rightarrow> entry \<Rightarrow> json" where
  "file_info name (RegularFile bs t) =
     JObj [(''filename'', JStr name), (''size'', JNum (int (length bs))),
           (''created'', JNum (int t))]"
| "file_info name Directory = JObj [(''filename'', JStr name)]"

text \<open>
  The loop of lines 220 to 226 over the directory: \<open>glob("screenshot_*")\<close> keeps the
  names with that prefix, \<open>is_file()\<close> the regular files.
\<close>

fun list_loop :: "(string \<times> entry) list \<Rightarrow> json list \<Rightarrow> json list" where
  "list_loop [] screenshots = screenshots"
| "list_loop ((name, e) # rest) screenshots =
     (if prefix ''screenshot_'' name
      then (if is_file e
            then list_loop rest (screenshots @ [file_info name e])
            else list_loop rest screenshots)
      else list_loop rest screenshots)"

text \<open>\<open>list_screenshots\<close>, lines 216 to 234.\<close>

definition list_screenshots :: "world \<Rightarrow> exc + reply" where
  "list_screenshots w =
     (let screenshots = list_loop (storage w) [] in
      Inr (Json (JObj [(''success'', JBool True),
             (''count'', JNum (int (length screenshots))),
             (''screenshots'', JArr screenshots)])))"

subsection \<open>The framework around the handlers\<close>

text \<open>
  A field of the JSON body of \<open>POST /screenshot\<close>: left out, \<open>null\<close>, or a value of
  the declared type.
\<close>

datatype 'a field = Omitted | Null | Given 'a

record body =
  body_url :: "string field"
  body_width :: "int field"
  body_height :: "int field"
  body_full_page :: "bool field"
  body_format :: "string field"
  body_quality :: "int field"
  body_timeout :: "int field"

text \<open>An \<open>Optional\<close> field with a default: the default stands in for a field left out.\<close>

fun optional_field :: "'a \<Rightarrow> 'a field \<Rightarrow> 'a option" where
  "optional_field d Omitted = Some d"
| "optional_field d Null = None"
| "optional_field d (Given v) = Some v"

text \<open>
  pydantic building a \<open>ScreenshotRequest\<close> from the body, with the defaults of lines 20
  to 25. \<open>http_url\<close> is pydantic's \<open>HttpUrl\<close> followed by \<open>str\<close>: the text of the
  URL when it accepts it.
\<close>

definition parse_body :: "(string \<Rightarrow> string option) \<Rightarrow> body \<Rightarrow> exc + ScreenshotRequest" where
  "parse_body http_url b =
     (case body_url b of
        Given u \<Rightarrow>
          (case http_url u of
             None \<Rightarrow> Inl (RequestValidationError ''url: invalid URL'')
           | Some s \<Rightarrow>
               Inr \<lparr>url = s,
                    width = optional_field 1920 (body_width b),
                    height = optional_field 1080 (body_height b),
                    full_page = optional_field False (body_full_page b),
                    format = optional_field ''png'' (body_format b),
                    quality = optional_field 80 (body_quality b),
                    timeout = optional_field 30000 (body_timeout b)\<rparr>)
      | _ \<Rightarrow> Inl (RequestValidationError ''url: field required''))"

text \<open>
  The query string of \<open>GET /screenshot\<close>: each parameter absent or present, the
  integers and the boolean already read from their text.
\<close>

record query =
  query_url :: "string option"
  query_width :: "int option"
  query_height :: "int option"
  query_full_page :: "bool option"
  query_format :: "string option"
  query_quality :: "int option"
  query_timeout :: "int option"

text \<open>\<open>Query(default, ge=lo, le=hi)\<close> on an integer parameter.\<close>

definition Query_int :: "string \<Rightarrow> int \<Rightarrow> int \<Rightarrow> int \<Rightarrow> int option \<Rightarrow> exc + int" where
  "Query_int name dflt lo hi raw =
     (case raw of
        None \<Rightarrow> Inr dflt
      | Some v \<Rightarrow> if lo \<le> v \<and> v \<le> hi then Inr v
                  else Inl (RequestValidationError (name @ '': value out of range'')))"

text \<open>\<open>Query("png", regex="^(png|jpeg|jpg)$")\<close>.\<close>

definition Query_format :: "string option \<Rightarrow> exc + string" where
  "Query_format raw =
     (case raw of
        None \<Rightarrow> Inr ''png''
      | Some v \<Rightarrow> if v \<in> set [''png'', ''jpeg'', ''jpg''] then Inr v
                  else Inl (RequestValidationError ''format: string does not match regex''))"

text \<open>The parameters of \<open>take_screenshot_get\<close>, lines 147 to 153, read from the query.\<close>

definition parse_query ::
  "query \<Rightarrow> exc + (string \<times> int \<times> int \<times> bool \<times> string \<times> int \<times> int)" where
  "parse_query q =
     (case query_url q of
        None \<Rightarrow> Inl (RequestValidationError ''url: field required'')
      | Some u \<Rightarrow>
     (case Query_int ''width'' 1920 100 3840 (query_width q) of
        Inl e \<Rightarrow> Inl e
      | Inr wd \<Rightarrow>
     (case Query_int ''height'' 1080 100 2160 (query_height q) of
        Inl e \<Rightarrow> Inl e
      | Inr ht \<Rightarrow>
     (case Query_format (query_format q) of
        Inl e \<Rightarrow> Inl e
      | Inr fmt \<Rightarrow>
     (case Query_int ''quality'' 80 1 100 (query_quality q) of
        Inl e \<Rightarrow> Inl e
      | Inr ql \<Rightarrow>
     (case Query_int ''timeout'' 30000 5000 120000 (query_timeout q) of
        Inl e \<Rightarrow> Inl e
      | Inr tm \<Rightarrow>
          Inr (u, wd, ht, (case query_full_page q of None \<Rightarrow> False | Some b \<Rightarrow> b),
               fmt, ql, tm)))))))"

text \<open>What goes back to the client: a status code and a payload.\<close>

datatype payload =
    JsonBody json
  | FileBody "nat list" string string
  | TextBody string

datatype response = Response nat payload

fun status :: "response \<Rightarrow> nat" where
  "status (Response code p) = code"

fun payload_of :: "response \<Rightarrow> payload" where
  "payload_of (Response code p) = p"

text \<open>
  The bytes a \<open>FileResponse\<close> sends: its path is \<open>TEMP_DIR\<close>, a slash and a name;
  the name must be that of a regular file, anything else is an error when the response is
  sent.
\<close>

definition read_file :: "world \<Rightarrow> string \<Rightarrow> nat list option" where
  "read_file w path =
     (case path_stat w (drop (length TEMP_DIR + 1) path) of
        Inr (Some (RegularFile bs t)) \<Rightarrow> Some bs
      | _ \<Rightarrow> None)"

text \<open>
  The framework turning the outcome of a handler into a response: an \<open>HTTPException\<close>
  becomes its status code with its detail, a request that does not fit the declared
  parameters is answered 422, any other exception 500.
\<close>

definition respond :: "world \<Rightarrow> exc + reply \<Rightarrow> response" where
  "respond w r =
     (case r of
        Inl (HTTPException code detail) \<Rightarrow> Response code (JsonBody (JObj [(''detail'', JStr detail)]))
      | Inl (RequestValidationError m) \<Rightarrow> Response 422 (JsonBody (JObj [(''detail'', JStr m)]))
      | Inl _ \<Rightarrow> Response 500 (TextBody ''Internal Server Error'')
      | Inr (Json j) \<Rightarrow> Response 200 (JsonBody j)
      | Inr (FileResponse path media_type filename) \<Rightarrow>
          (case read_file w path of
             Some bs \<Rightarrow> Response 200 (FileBody bs media_type filename)
           | None \<Rightarrow> Response 500 (TextBody ''Internal Server Error'')))"

text \<open>The routes.\<close>

definition post_screenshot ::
  "(string \<Rightarrow> string option) \<Rightarrow> string \<Rightarrow> engine \<Rightarrow> body \<Rightarrow> world \<Rightarrow> response \<times> world" where
  "post_screenshot http_url hex eng b w =
     (case parse_body http_url b of
        Inl e \<Rightarrow> (respond w (Inl e), w)
      | Inr request \<Rightarrow>
          (case take_screenshot_post hex eng request w of (r, w') \<Rightarrow> (respond w' r, w')))"

definition get_screenshot :: "string \<Rightarrow> engine \<Rightarrow> query \<Rightarrow> world \<Rightarrow> response \<times> world" where
  "get_screenshot hex eng q w =
     (case parse_query q of
        Inl e \<Rightarrow> (respond w (Inl e), w)
      | Inr (u, wd, ht, fp, fmt, ql, tm) \<Rightarrow>
          (case take_screenshot_get hex eng u wd ht fp fmt ql tm w of
             (r, w') \<Rightarrow> (respond w' r, w')))"

definition get_download :: "string \<Rightarrow> world \<Rightarrow> response" where
  "get_download filename w = respond w (download_screenshot filename w)"


definition get_list :: "world \<Rightarrow> response" where
  "get_list w = respond w (list_screenshots w)"

subsection \<open>Concrete inputs\<close>

text \<open>A browser whose calls all return, and one whose navigation times out.\<close>

definition eng_ok :: engine where
  "eng_ok = \<lparr>raises = (\<lambda>st. None), image = [137, 80, 78, 71], clock = 1700000000\<rparr>"

definition eng_goto_timeout :: engine where
  "eng_goto_timeout =
     \<lparr>raises = (\<lambda>st. if st = Goto then Some ''Timeout 30000ms exceeded'' else None),
      image = [137, 80, 78, 71], clock = 1700000000\<rparr>"

text \<open>An empty directory, and one with two screenshots, a foreign file and a directory.\<close>

definition w_empty :: world where
  "w_empty = \<lparr>storage = [], browsers = 0, engine_calls = [], captures = []\<rparr>"

definition w_stored :: world where
  "w_stored =
     \<lparr>storage = [(''screenshot_0a.png'', RegularFile [137, 80, 78, 71] 5),
                 (''notes.txt'', RegularFile [104, 105] 6),
                 (''screenshot_old'', Directory),
                 (''screenshot_1b.jpg'', RegularFile [255, 216, 255] 7)],
      browsers = 0, engine_calls = [], captures = []\<rparr>"

text \<open>A stand-in for \<open>HttpUrl\<close> that accepts the two schemes and keeps the text.\<close>

definition accept_url :: "string \<Rightarrow> string option" where
  "accept_url u = (if prefix ''http://'' u \<or> prefix ''https://'' u then Some u else None)"

text \<open>A body and a query that give the URL only.\<close>

definition body_only_url :: "string \<Rightarrow> body" where
  "body_only_url u =
     \<lparr>body_url = Given u, body_width = Omitted, body_height = Omitted,
      body_full_page = Omitted, body_format = Omitted, body_quality = Omitted,
      body_timeout = Omitted\<rparr>"

definition query_only_url :: "string \<Rightarrow> query" where
  "query_only_url u =
     \<lparr>query_url = Some u, query_width = None, query_height = None, query_full_page = None,
      query_format = None, query_quality = None, query_timeout = None\<rparr>"

text \<open>
  What the specification says of the normalization, to compare with
  \<open>format_normalized\<close>: "jpg" and "jpeg" become "jpeg", anything else "png".
\<close>

definition spec_format_normalization :: "string \<Rightarrow> string" where
  "spec_format_normalization fmt = (if fmt = ''jpg'' \<or> fmt = ''jpeg'' then ''jpeg'' else ''png'')"

section \<open>Properties\<close>

subsection \<open>Sequencing and the browser calls\<close>

lemma str_nat_400: "str_nat 400 = ''400''"
  by (simp add: str_nat.simps digit_char_def)

lemma str_nat_404: "str_nat 404 = ''404''"
  by (simp add: str_nat.simps digit_char_def)

lemma capture_body_browsers:
  "browsers (snd (capture_body eng fn u wd ht fp fmt q t w)) = browsers w"
  by (simp add: capture_body_def and_then_def engine_call_def Let_def split: option.splits)

lemma capture_body_captures:
  "captures (snd (capture_body eng fn u wd ht fp fmt q t w)) = captures w"
  by (simp add: capture_body_def and_then_def engine_call_def Let_def split: option.splits)

lemma capture_body_calls:
  "\<exists>mid. engine_calls (snd (capture_body eng fn u wd ht fp fmt q t w)) = engine_calls w @ mid
     \<and> CLaunch \<notin> set mid \<and> CClose \<notin> set mid"
  by (simp add: capture_body_def and_then_def engine_call_def Let_def split: option.splits)

lemma capture_screenshot_browsers:
  "browsers (snd (capture_screenshot hex eng u wd ht fp fmt q t w)) = browsers w"
  by (simp add: capture_screenshot_def engine_call_def Let_def case_prod_beta browser_close_def
      capture_body_browsers split: option.splits sum.splits)

lemma capture_screenshot_captures:
  "captures (snd (capture_screenshot hex eng u wd ht fp fmt q t w)) =
     captures w @ [CaptureCall u wd ht fp fmt q t]"
  by (simp add: capture_screenshot_def engine_call_def Let_def case_prod_beta browser_close_def
      capture_body_captures split: option.splits sum.splits)

lemma capture_screenshot_filename:
  "fst (capture_screenshot hex eng u wd ht fp fmt q t w) = Inr filename \<Longrightarrow>
     filename = ''screenshot_'' @ hex @ ''.'' @ (if fmt = ''png'' then ''png'' else ''jpg'')"
  by (simp add: capture_screenshot_def engine_call_def Let_def case_prod_beta
      split: option.splits sum.splits if_splits)

lemma capture_screenshot_calls:
  assumes "raises eng Launch = None"
  shows "\<exists>mid. engine_calls (snd (capture_screenshot hex eng u wd ht fp fmt q t w)) =
            engine_calls w @ [CLaunch] @ mid @ [CClose]
          \<and> CLaunch \<notin> set mid \<and> CClose \<notin> set mid"
proof -
  let ?fn = "''screenshot_'' @ hex @ ''.'' @ (if fmt = ''png'' then ''png'' else ''jpg'')"
  let ?w1 = "w\<lparr>captures := captures w @ [CaptureCall u wd ht fp fmt q t],
               engine_calls := engine_calls w @ [CLaunch],
               browsers := Suc (browsers w)\<rparr>"
  obtain mid where m: "engine_calls (snd (capture_body eng ?fn u wd ht fp fmt q t ?w1)) =
      engine_calls ?w1 @ mid" "CLaunch \<notin> set mid" "CClose \<notin> set mid"
    using capture_body_calls [of eng ?fn u wd ht fp fmt q t ?w1] by blast
  have "engine_calls (snd (capture_screenshot hex eng u wd ht fp fmt q t w)) =
      engine_calls (snd (capture_body eng ?fn u wd ht fp fmt q t ?w1)) @ [CClose]"
    using assms
    by (simp add: capture_screenshot_def engine_call_def Let_def case_prod_beta browser_close_def
        split: sum.splits)
  with m show ?thesis by simp
qed

subsection \<open>Release of the browser\<close>

text \<open>
  C5. Whatever the browser does in \<open>capture_screenshot\<close>, the number of live browser
  processes after the call is the number before it: a launch that raises starts none, and
  after a launch that returns the calls made are \<open>launch\<close>, the calls of the body up to
  the one that raised (or all of them), and \<open>close\<close> last, on success and on failure
  alike.
\<close>

theorem capture_releases_browser:
  "browsers (snd (capture_screenshot hex eng u wd ht fp fmt q t w)) = browsers w \<and>
   (raises eng Launch = None \<longrightarrow>
      (\<exists>mid. engine_calls (snd (capture_screenshot hex eng u wd ht fp fmt q t w)) =
                engine_calls w @ [CLaunch] @ mid @ [CClose]
              \<and> CLaunch \<notin> set mid \<and> CClose \<notin> set mid))"
proof (intro conjI impI)
  show "browsers (snd (capture_screenshot hex eng u wd ht fp fmt q t w)) = browsers w"
    by (rule capture_screenshot_browsers)
next
  assume "raises eng Launch = None"
  then show "\<exists>mid. engine_calls (snd (capture_screenshot hex eng u wd ht fp fmt q t w)) =
                engine_calls w @ [CLaunch] @ mid @ [CClose]
              \<and> CLaunch \<notin> set mid \<and> CClose \<notin> set mid"
    by (rule capture_screenshot_calls)
qed

theorem capture_releases_browser_witness:
  "raises eng_goto_timeout Launch = None \<and>
   fst (capture_screenshot ''0f'' eng_goto_timeout ''https://example.com'' 800 600
          (Some False) ''png'' (Some 80) (Some 30000) w_empty) =
     Inl (EngineError ''Timeout 30000ms exceeded'') \<and>
   browsers (snd (capture_screenshot ''0f'' eng_goto_timeout ''https://example.com'' 800 600
          (Some False) ''png'' (Some 80) (Some 30000) w_empty)) = browsers w_empty \<and>
   (\<exists>mid. engine_calls (snd (capture_screenshot ''0f'' eng_goto_timeout
          ''https://example.com'' 800 600 (Some False) ''png'' (Some 80) (Some 30000) w_empty)) =
            engine_calls w_empty @ [CLaunch] @ mid @ [CClose]
          \<and> CLaunch \<notin> set mid \<and> CClose \<notin> set mid)"
proof -
  have l: "raises eng_goto_timeout Launch = None"
    by (simp add: eng_goto_timeout_def)
  have f: "fst (capture_screenshot ''0f'' eng_goto_timeout ''https://example.com'' 800 600
          (Some False) ''png'' (Some 80) (Some 30000) w_empty) =
     Inl (EngineError ''Timeout 30000ms exceeded'')"
    by (simp add: capture_screenshot_def capture_body_def and_then_def engine_call_def
        eng_goto_timeout_def Let_def)
  show ?thesis
    using l f capture_releases_browser [of "''0f''" eng_goto_timeout "''https://example.com''"
        800 600 "Some False" "''png''" "Some 80" "Some 30000" w_empty]
    by blast
qed

subsection \<open>The handlers: what reaches \<open>capture_screenshot\<close>\<close>

lemma post_try_captures:
  assumes "format request = Some f"
  shows "captures (snd (post_try hex eng request w)) = captures w \<or>
     (\<exists>wd ht. captures (snd (post_try hex eng request w)) =
        captures w @ [CaptureCall (url request) wd ht (full_page request)
           (format_normalized f) (quality request) (timeout request)])"
  using assms
  by (simp add: post_try_def case_prod_beta capture_screenshot_captures
      split: sum.splits)

lemma take_screenshot_post_world:
  "snd (take_screenshot_post hex eng request w) = snd (post_try hex eng request w)"
  by (simp add: take_screenshot_post_def case_prod_beta split: sum.splits)

lemma take_screenshot_get_world:
  "snd (take_screenshot_get hex eng u wd ht fp f q t w) = snd (get_try hex eng u wd ht fp f q t w)"
  by (simp add: take_screenshot_get_def case_prod_beta split: sum.splits)

lemma get_try_captures:
  "captures (snd (get_try hex eng u wd ht fp f q t w)) = captures w \<or>
   captures (snd (get_try hex eng u wd ht fp f q t w)) =
     captures w @ [CaptureCall u wd ht (Some fp) (format_normalized f) (Some q) (Some t)]"
  by (simp add: get_try_def case_prod_beta capture_screenshot_captures split: sum.splits)

lemma post_try_valid_captures:
  assumes "format request = Some f" "f \<in> set [''png'', ''jpeg'', ''jpg'']"
    "f \<noteq> ''png'' \<longrightarrow> (\<exists>v. quality request = Some v \<and> 1 \<le> v \<and> v \<le> 100)"
    "width request = Some wd" "100 \<le> wd" "wd \<le> 3840"
    "height request = Some ht" "100 \<le> ht" "ht \<le> 2160"
  shows "captures (snd (post_try hex eng request w)) =
        captures w @ [CaptureCall (url request) wd ht (full_page request)
           (format_normalized f) (quality request) (timeout request)]"
  using assms
  by (auto simp add: post_try_def case_prod_beta capture_screenshot_captures check_range_def
      format_normalized_def split: sum.splits)

lemma post_try_filename:
  assumes "post_try hex eng request w = (Inr r, w')"
  shows "\<exists>f. format request = Some f \<and> f \<in> set [''png'', ''jpeg'', ''jpg''] \<and>
     r = Json (JObj [(''success'', JBool True),
           (''filename'', JStr (''screenshot_'' @ hex @ (if f = ''png'' then ''.png'' else ''.jpg''))),
           (''message'', JStr ''Screenshot captured successfully'')])"
proof (cases "format request")
  case None
  with assms show ?thesis by (simp add: post_try_def)
next
  case (Some f)
  show ?thesis
  proof (cases "f \<in> set [''png'', ''jpeg'', ''jpg'']")
    case False
    with Some assms show ?thesis by (simp add: post_try_def)
  next
    case True
    from assms Some True obtain wd ht filename where
      c: "capture_screenshot hex eng (url request) wd ht (full_page request)
               (format_normalized f) (quality request) (timeout request) w = (Inr filename, w')"
      and r: "r = Json (JObj [(''success'', JBool True), (''filename'', JStr filename),
           (''message'', JStr ''Screenshot captured successfully'')])"
      by (auto simp add: post_try_def split: sum.splits prod.splits)
    from c have "fst (capture_screenshot hex eng (url request) wd ht (full_page request)
               (format_normalized f) (quality request) (timeout request) w) = Inr filename"
      by simp
    from capture_screenshot_filename [OF this] True
    have "filename = ''screenshot_'' @ hex @ (if f = ''png'' then ''.png'' else ''.jpg'')"
      by (auto simp add: format_normalized_def)
    with Some True r show ?thesis by simp
  qed
qed

lemma get_try_filename:
  assumes "get_try hex eng u wd ht fp f q t w = (Inr r, w')"
  shows "r = Json (JObj [(''success'', JBool True),
           (''filename'', JStr (''screenshot_'' @ hex @ (if f = ''png'' then ''.png'' else ''.jpg''))),
           (''message'', JStr ''Screenshot captured successfully''),
           (''download_url'', JStr (''/download/'' @ ''screenshot_'' @ hex @
               (if f = ''png'' then ''.png'' else ''.jpg'')))])"
proof -
  from assms obtain filename where
    c: "capture_screenshot hex eng u wd ht (Some fp) (format_normalized f) (Some q) (Some t) w
         = (Inr filename, w')"
    and r: "r = Json (JObj [(''success'', JBool True), (''filename'', JStr filename),
           (''message'', JStr ''Screenshot captured successfully''),
           (''download_url'', JStr (''/download/'' @ filename))])"
    by (simp add: get_try_def split: sum.splits prod.splits if_splits)
  from c have "fst (capture_screenshot hex eng u wd ht (Some fp) (format_normalized f)
      (Some q) (Some t) w) = Inr filename"
    by simp
  from capture_screenshot_filename [OF this]
  have "filename = ''screenshot_'' @ hex @ (if f = ''png'' then ''.png'' else ''.jpg'')"
    by (auto simp add: format_normalized_def)
  with r show ?thesis by simp
qed

lemma parse_body_error:
  "parse_body http_url b = Inl e \<Longrightarrow> \<exists>m. e = RequestValidationError m"
  by (auto simp add: parse_body_def split: field.splits option.splits)

lemma Query_int_Inr:
  "Query_int name d lo hi raw = Inr v \<longleftrightarrow>
     (raw = None \<and> v = d) \<or> (raw = Some v \<and> lo \<le> v \<and> v \<le> hi)"
  by (auto simp add: Query_int_def split: option.splits)

lemma parse_query_Inr:
  "parse_query qr = Inr (u, wd, ht, fp, f, q, t) \<longleftrightarrow>
     query_url qr = Some u \<and>
     Query_int ''width'' 1920 100 3840 (query_width qr) = Inr wd \<and>
     Query_int ''height'' 1080 100 2160 (query_height qr) = Inr ht \<and>
     Query_format (query_format qr) = Inr f \<and>
     Query_int ''quality'' 80 1 100 (query_quality qr) = Inr q \<and>
     Query_int ''timeout'' 30000 5000 120000 (query_timeout qr) = Inr t \<and>
     fp = (case query_full_page qr of None \<Rightarrow> False | Some b \<Rightarrow> b)"
  unfolding parse_query_def
  by (cases "query_url qr"; cases "Query_int ''width'' 1920 100 3840 (query_width qr)";
      cases "Query_int ''height'' 1080 100 2160 (query_height qr)";
      cases "Query_format (query_format qr)";
      cases "Query_int ''quality'' 80 1 100 (query_quality qr)";
      cases "Query_int ''timeout'' 30000 5000 120000 (query_timeout qr)") auto


lemma Query_int_error:
  "Query_int name d lo hi raw = Inl e \<Longrightarrow> \<exists>m. e = RequestValidationError m"
  by (auto simp add: Query_int_def split: option.splits if_splits)

lemma Query_format_error:
  "Query_format raw = Inl e \<Longrightarrow> \<exists>m. e = RequestValidationError m"
  by (auto simp add: Query_format_def split: option.splits if_splits)

lemma parse_query_error:
  assumes "parse_query qr = Inl e"
  shows "\<exists>m. e = RequestValidationError m"
  using assms unfolding parse_query_def
  by (auto split: option.splits sum.splits dest: Query_int_error Query_format_error)

lemma respond_validation_error:
  "respond w (Inl (RequestValidationError m)) = Response 422 (JsonBody (JObj [(''detail'', JStr m)]))"
  by (simp add: respond_def)

lemma post_screenshot_200:
  assumes "fst (post_screenshot http_url hex eng b w) = Response 200 p"
  shows "\<exists>request r w'. parse_body http_url b = Inr request \<and>
           post_try hex eng request w = (Inr (Json r), w') \<and> p = JsonBody r"
proof (cases "parse_body http_url b")
  case (Inl e)
  then obtain m where "e = RequestValidationError m"
    using parse_body_error by blast
  with Inl assms show ?thesis
    by (simp add: post_screenshot_def respond_validation_error)
next
  case (Inr request)
  obtain x w' where t: "post_try hex eng request w = (x, w')"
    by (cases "post_try hex eng request w")
  show ?thesis
  proof (cases x)
    case (Inl e)
    with Inr t assms show ?thesis
      by (simp add: post_screenshot_def take_screenshot_post_def respond_def)
  next
    case r: (Inr r)
    with t post_try_filename [of hex eng request w r w'] obtain j where "r = Json j"
      by blast
    with r Inr t assms show ?thesis
      by (simp add: post_screenshot_def take_screenshot_post_def respond_def)
  qed
qed

lemma get_screenshot_200:
  assumes "fst (get_screenshot hex eng qr w) = Response 200 p"
  shows "\<exists>u wd ht fp f q t r w'. parse_query qr = Inr (u, wd, ht, fp, f, q, t) \<and>
           get_try hex eng u wd ht fp f q t w = (Inr (Json r), w') \<and> p = JsonBody r"
proof (cases "parse_query qr")
  case (Inl e)
  then obtain m where "e = RequestValidationError m"
    using parse_query_error by blast
  with Inl assms show ?thesis
    by (simp add: get_screenshot_def respond_validation_error)
next
  case (Inr args)
  obtain u wd ht fp f q t where a: "args = (u, wd, ht, fp, f, q, t)"
    by (cases args)
  obtain x w' where t: "get_try hex eng u wd ht fp f q t w = (x, w')"
    by (cases "get_try hex eng u wd ht fp f q t w")
  show ?thesis
  proof (cases x)
    case (Inl e)
    with Inr a t assms show ?thesis
      by (simp add: get_screenshot_def take_screenshot_get_def respond_def)
  next
    case r: (Inr r)
    with t get_try_filename [of hex eng u wd ht fp f q t w r w'] obtain j where "r = Json j"
      by blast
    with r Inr a t assms show ?thesis
      by (simp add: get_screenshot_def take_screenshot_get_def respond_def)
  qed
qed

text \<open>
  A request that fails one of the four checks of \<open>take_screenshot_post\<close> leaves the
  world as it was: no call to \<open>capture_screenshot\<close>, no call to the browser, no file.
  The exception the check raised is caught by the enclosing clause and leaves as a 500.
\<close>

lemma post_try_rejects:
  assumes "(\<forall>f. format request = Some f \<longrightarrow> f \<notin> set [''png'', ''jpeg'', ''jpg''])
         \<or> (\<exists>f v. format request = Some f \<and> f \<in> set [''jpeg'', ''jpg''] \<and>
                  quality request = Some v \<and> (v < 1 \<or> v > 100))
         \<or> (\<exists>v. width request = Some v \<and> (v < 100 \<or> v > 3840))
         \<or> (\<exists>v. height request = Some v \<and> (v < 100 \<or> v > 2160))"
  shows "\<exists>e. post_try hex eng request w = (Inl e, w)"
  using assms
  by (auto simp add: post_try_def check_range_def format_normalized_def
      split: option.splits sum.splits)

lemma take_screenshot_post_rejects:
  assumes "(\<forall>f. format request = Some f \<longrightarrow> f \<notin> set [''png'', ''jpeg'', ''jpg''])
         \<or> (\<exists>f v. format request = Some f \<and> f \<in> set [''jpeg'', ''jpg''] \<and>
                  quality request = Some v \<and> (v < 1 \<or> v > 100))
         \<or> (\<exists>v. width request = Some v \<and> (v < 100 \<or> v > 3840))
         \<or> (\<exists>v. height request = Some v \<and> (v < 100 \<or> v > 2160))"
  shows "\<exists>d. take_screenshot_post hex eng request w = (Inl (HTTPException 500 d), w)"
proof -
  obtain e where "post_try hex eng request w = (Inl e, w)"
    using post_try_rejects [OF assms] by blast
  then show ?thesis by (simp add: take_screenshot_post_def)
qed

text \<open>The same for a URL without one of the two prefixes on \<open>take_screenshot_get\<close>.\<close>

lemma take_screenshot_get_rejects:
  assumes "\<not> prefix ''http://'' u" "\<not> prefix ''https://'' u"
  shows "take_screenshot_get hex eng u wd ht fp fmt q t w =
    (Inl (HTTPException 500
       ''Failed to capture screenshot: 400: URL must start with http:// or https://''), w)"
  using assms by (simp add: take_screenshot_get_def get_try_def str_nat_400)

subsection \<open>Validation failures on \<open>POST /screenshot\<close>\<close>

text \<open>
  C1. A body that fails validation should be answered 400 without a capture. The capture
  is indeed never started, but the answer is 500: each of the four checks raises its
  \<open>HTTPException(status_code=400)\<close> inside the \<open>try\<close> statement, whose
  \<open>except Exception\<close> clause catches it and raises a 500 that quotes it. The four
  requests below fail one check each (format, quality with jpeg, width, height); for every
  browser and every state the response is 500 and the state is unchanged.
\<close>

theorem post_validation_failure_answers_500:
  "post_screenshot accept_url hex eng
     ((body_only_url ''https://example.com'')\<lparr>body_format := Given ''gif''\<rparr>) w =
     (Response 500 (JsonBody (JObj [(''detail'',
        JStr (''Failed to capture screenshot: 400: Format must be '' @ quoted ''png'' @
              '' or '' @ quoted ''jpeg''))])), w) \<and>
   post_screenshot accept_url hex eng
     ((body_only_url ''https://example.com'')
        \<lparr>body_format := Given ''jpeg'', body_quality := Given 150\<rparr>) w =
     (Response 500 (JsonBody (JObj [(''detail'',
        JStr ''Failed to capture screenshot: 400: Quality must be between 1 and 100 for JPEG'')])), w) \<and>
   post_screenshot accept_url hex eng
     ((body_only_url ''https://example.com'')\<lparr>body_width := Given 50\<rparr>) w =
     (Response 500 (JsonBody (JObj [(''detail'',
        JStr ''Failed to capture screenshot: 400: Width must be between 100 and 3840'')])), w) \<and>
   post_screenshot accept_url hex eng
     ((body_only_url ''https://example.com'')\<lparr>body_height := Given 5000\<rparr>) w =
     (Response 500 (JsonBody (JObj [(''detail'',
        JStr ''Failed to capture screenshot: 400: Height must be between 100 and 2160'')])), w)"
  by (simp add: post_screenshot_def parse_body_def body_only_url_def accept_url_def
      take_screenshot_post_def post_try_def format_error_def respond_def str_nat_400
      check_range_def format_normalized_def)

subsection \<open>The URL scheme on \<open>GET /screenshot\<close>\<close>

text \<open>
  C2. A URL without the prefix \<open>http://\<close> or \<open>https://\<close> should be answered 400
  without a capture. No capture is started and no file is written, but the answer is 500,
  for the reason of C1: the \<open>HTTPException(status_code=400)\<close> of line 159 is raised inside
  the \<open>try\<close> statement and caught by its \<open>except Exception\<close> clause. The request is
  \<open>GET /screenshot?url=ftp://example.com\<close>.
\<close>

theorem get_bad_scheme_answers_500:
  "get_screenshot hex eng (query_only_url ''ftp://example.com'') w =
   (Response 500 (JsonBody (JObj [(''detail'',
      JStr ''Failed to capture screenshot: 400: URL must start with http:// or https://'')])), w)"
  by (simp add: get_screenshot_def parse_query_def query_only_url_def Query_int_def
      Query_format_def take_screenshot_get_def get_try_def respond_def str_nat_400)

subsection \<open>Format normalization\<close>

text \<open>
  C3, amended. The normalization maps "png" to "png" and every other string to "jpeg",
  so "jpg" and "jpeg" both become "jpeg"; on the three formats the endpoints accept it
  agrees with the mapping the specification gives; and on both entry paths a call to
  \<open>capture_screenshot\<close>, when there is one, receives the normalized format of the request.
\<close>

theorem format_normalized_both_paths:
  "format_normalized ''png'' = ''png'' \<and>
   (\<forall>f. f \<noteq> ''png'' \<longrightarrow> format_normalized f = ''jpeg'') \<and>
   (\<forall>f \<in> set [''png'', ''jpeg'', ''jpg'']. format_normalized f = spec_format_normalization f) \<and>
   (\<forall>f. format request = Some f \<longrightarrow>
      captures (snd (take_screenshot_post hex eng request w)) = captures w \<or>
      (\<exists>wd ht. captures (snd (take_screenshot_post hex eng request w)) =
         captures w @ [CaptureCall (url request) wd ht (full_page request)
            (format_normalized f) (quality request) (timeout request)])) \<and>
   (captures (snd (take_screenshot_get hex eng u wd ht fp fmt q t w)) = captures w \<or>
    captures (snd (take_screenshot_get hex eng u wd ht fp fmt q t w)) =
      captures w @ [CaptureCall u wd ht (Some fp) (format_normalized fmt) (Some q) (Some t)])"
proof (intro conjI allI impI ballI)
  show "format_normalized ''png'' = ''png''"
    by (simp add: format_normalized_def)
next
  fix f :: string
  assume "f \<noteq> ''png''"
  then show "format_normalized f = ''jpeg''"
    by (simp add: format_normalized_def)
next
  fix f :: string
  assume "f \<in> set [''png'', ''jpeg'', ''jpg'']"
  then show "format_normalized f = spec_format_normalization f"
    by (auto simp add: format_normalized_def spec_format_normalization_def)
next
  fix f
  assume "format request = Some f"
  then show "captures (snd (take_screenshot_post hex eng request w)) = captures w \<or>
      (\<exists>wd ht. captures (snd (take_screenshot_post hex eng request w)) =
         captures w @ [CaptureCall (url request) wd ht (full_page request)
            (format_normalized f) (quality request) (timeout request)])"
    using post_try_captures [of request f hex eng w]
    by (simp only: take_screenshot_post_world)
next
  show "captures (snd (take_screenshot_get hex eng u wd ht fp fmt q t w)) = captures w \<or>
    captures (snd (take_screenshot_get hex eng u wd ht fp fmt q t w)) =
      captures w @ [CaptureCall u wd ht (Some fp) (format_normalized fmt) (Some q) (Some t)]"
    using get_try_captures [of hex eng u wd ht fp fmt q t w]
    by (simp only: take_screenshot_get_world)
qed

theorem format_normalized_both_paths_witness:
  "format_normalized ''jpg'' = ''jpeg'' \<and> format_normalized ''jpeg'' = ''jpeg'' \<and>
   spec_format_normalization ''jpg'' = ''jpeg'' \<and>
   captures (snd (take_screenshot_post ''0f'' eng_ok
      \<lparr>url = ''https://example.com'', width = Some 800, height = Some 600,
       full_page = Some False, format = Some ''jpg'', quality = Some 80,
       timeout = Some 30000\<rparr> w_empty)) =
     [CaptureCall ''https://example.com'' 800 600 (Some False) ''jpeg'' (Some 80) (Some 30000)] \<and>
   captures (snd (take_screenshot_get ''0f'' eng_ok ''https://example.com'' 800 600 False
      ''jpg'' 80 30000 w_empty)) =
     [CaptureCall ''https://example.com'' 800 600 (Some False) ''jpeg'' (Some 80) (Some 30000)]"
proof -
  let ?r = "\<lparr>url = ''https://example.com'', width = Some 800, height = Some 600,
       full_page = Some False, format = Some ''jpg'', quality = Some 80,
       timeout = Some 30000\<rparr>"
  have p: "captures (snd (take_screenshot_post ''0f'' eng_ok ?r w_empty)) =
     [CaptureCall ''https://example.com'' 800 600 (Some False) ''jpeg'' (Some 80) (Some 30000)]"
    by (simp add: take_screenshot_post_world post_try_valid_captures [where f = "''jpg''"]
        format_normalized_def w_empty_def)
  have g: "captures (snd (take_screenshot_get ''0f'' eng_ok ''https://example.com'' 800 600 False
      ''jpg'' 80 30000 w_empty)) =
     [CaptureCall ''https://example.com'' 800 600 (Some False) ''jpeg'' (Some 80) (Some 30000)]"
    by (simp add: take_screenshot_get_world get_try_def case_prod_beta
        capture_screenshot_captures format_normalized_def w_empty_def split: sum.splits)
  have n: "\<forall>f. f \<noteq> ''png'' \<longrightarrow> format_normalized f = ''jpeg''"
    using format_normalized_both_paths [of ?r "''0f''" eng_ok w_empty
        "''https://example.com''" 800 600 False "''jpg''" 80 30000]
    by blast
  have "format_normalized ''jpg'' = ''jpeg''" "format_normalized ''jpeg'' = ''jpeg''"
    using n by simp_all
  with p g show ?thesis
    by (simp add: spec_format_normalization_def)
qed

text \<open>
  C3 as the specification words it fails at "gif": the specification sends it to
  "png", the expression of lines 113 and 162 to "jpeg".
\<close>

theorem format_normalized_counterexample:
  "spec_format_normalization ''gif'' = ''png'' \<and> format_normalized ''gif'' = ''jpeg'' \<and>
   format_normalized ''gif'' \<noteq> spec_format_normalization ''gif''"
  by (simp add: spec_format_normalization_def format_normalized_def)

subsection \<open>The generated filename\<close>

text \<open>
  C4. A capture that returns gives the name \<open>screenshot_<hex>.<ext>\<close>, with
  \<open>ext\<close> "png" for the format "png" and "jpg" otherwise; so a 200 response of either
  endpoint names a file whose extension is ".png" when the requested format (or its default)
  is "png" and ".jpg" when it is "jpeg" or "jpg".
\<close>

theorem filename_extension_matches_format:
  "(fst (capture_screenshot hex eng u wd ht fp fmt q t w) = Inr filename \<longrightarrow>
      filename = ''screenshot_'' @ hex @ ''.'' @ (if fmt = ''png'' then ''png'' else ''jpg'')) \<and>
   (fst (post_screenshot http_url hex eng b w) = Response 200 p \<longrightarrow>
      (\<exists>f. optional_field ''png'' (body_format b) = Some f \<and>
           f \<in> set [''png'', ''jpeg'', ''jpg''] \<and>
           p = JsonBody (JObj [(''success'', JBool True),
                 (''filename'', JStr (''screenshot_'' @ hex @
                     (if f = ''png'' then ''.png'' else ''.jpg''))),
                 (''message'', JStr ''Screenshot captured successfully'')]))) \<and>
   (fst (get_screenshot hex eng qr w) = Response 200 p' \<longrightarrow>
      (\<exists>f. (case query_format qr of None \<Rightarrow> ''png'' | Some v \<Rightarrow> v) = f \<and>
           f \<in> set [''png'', ''jpeg'', ''jpg''] \<and>
           p' = JsonBody (JObj [(''success'', JBool True),
                 (''filename'', JStr (''screenshot_'' @ hex @
                     (if f = ''png'' then ''.png'' else ''.jpg''))),
                 (''message'', JStr ''Screenshot captured successfully''),
                 (''download_url'', JStr (''/download/'' @ ''screenshot_'' @ hex @
                     (if f = ''png'' then ''.png'' else ''.jpg'')))])))"
proof (intro conjI impI)
  assume "fst (capture_screenshot hex eng u wd ht fp fmt q t w) = Inr filename"
  then show "filename = ''screenshot_'' @ hex @ ''.'' @ (if fmt = ''png'' then ''png'' else ''jpg'')"
    by (rule capture_screenshot_filename)
next
  assume a: "fst (post_screenshot http_url hex eng b w) = Response 200 p"
  obtain request r w' where
    pb: "parse_body http_url b = Inr request"
    and pt: "post_try hex eng request w = (Inr (Json r), w')"
    and p: "p = JsonBody r"
    using post_screenshot_200 [OF a] by auto
  from pb have "format request = optional_field ''png'' (body_format b)"
    by (auto simp add: parse_body_def split: field.splits option.splits)
  with post_try_filename [OF pt] p
  show "\<exists>f. optional_field ''png'' (body_format b) = Some f \<and>
           f \<in> set [''png'', ''jpeg'', ''jpg''] \<and>
           p = JsonBody (JObj [(''success'', JBool True),
                 (''filename'', JStr (''screenshot_'' @ hex @
                     (if f = ''png'' then ''.png'' else ''.jpg''))),
                 (''message'', JStr ''Screenshot captured successfully'')])"
    by auto
next
  assume a: "fst (get_screenshot hex eng qr w) = Response 200 p'"
  obtain u1 wd1 ht1 fp1 f q1 t1 r w' where
    pq: "parse_query qr = Inr (u1, wd1, ht1, fp1, f, q1, t1)"
    and gt: "get_try hex eng u1 wd1 ht1 fp1 f q1 t1 w = (Inr (Json r), w')"
    and p: "p' = JsonBody r"
    using get_screenshot_200 [OF a] by auto
  from pq have "(case query_format qr of None \<Rightarrow> ''png'' | Some v \<Rightarrow> v) = f \<and>
      f \<in> set [''png'', ''jpeg'', ''jpg'']"
    by (auto simp add: parse_query_Inr Query_format_def split: option.splits if_splits)
  with get_try_filename [OF gt] p
  show "\<exists>f. (case query_format qr of None \<Rightarrow> ''png'' | Some v \<Rightarrow> v) = f \<and>
           f \<in> set [''png'', ''jpeg'', ''jpg''] \<and>
           p' = JsonBody (JObj [(''success'', JBool True),
                 (''filename'', JStr (''screenshot_'' @ hex @
                     (if f = ''png'' then ''.png'' else ''.jpg''))),
                 (''message'', JStr ''Screenshot captured successfully''),
                 (''download_url'', JStr (''/download/'' @ ''screenshot_'' @ hex @
                     (if f = ''png'' then ''.png'' else ''.jpg'')))])"
    by auto
qed

lemma eng_ok_capture:
  "fst (capture_screenshot hex eng_ok u wd ht fp fmt q t w) =
     Inr (''screenshot_'' @ hex @ ''.'' @ (if fmt = ''png'' then ''png'' else ''jpg''))"
  by (simp add: capture_screenshot_def capture_body_def and_then_def engine_call_def
      eng_ok_def Let_def)

lemma post_jpg_200:
  "\<exists>p. fst (post_screenshot accept_url ''0f'' eng_ok
     ((body_only_url ''https://example.com'')\<lparr>body_format := Given ''jpg''\<rparr>) w_empty) = Response 200 p"
  by (simp add: post_screenshot_def parse_body_def body_only_url_def accept_url_def
      take_screenshot_post_def post_try_def respond_def case_prod_beta eng_ok_capture
      check_range_def format_normalized_def split: sum.splits)

lemma get_jpeg_200:
  "\<exists>p. fst (get_screenshot ''0f'' eng_ok
     ((query_only_url ''https://example.com'')\<lparr>query_format := Some ''jpeg''\<rparr>) w_empty) = Response 200 p"
  by (simp add: get_screenshot_def parse_query_def query_only_url_def Query_int_def
      Query_format_def
      take_screenshot_get_def get_try_def respond_def case_prod_beta eng_ok_capture
      format_normalized_def split: sum.splits)


theorem filename_extension_matches_format_witness:
  "fst (capture_screenshot ''0f'' eng_ok ''https://example.com'' 800 600 (Some False) ''jpeg''
          (Some 80) (Some 30000) w_empty) = Inr ''screenshot_0f.jpg'' \<and>
   fst (post_screenshot accept_url ''0f'' eng_ok
          ((body_only_url ''https://example.com'')\<lparr>body_format := Given ''jpg''\<rparr>) w_empty) =
     Response 200 (JsonBody (JObj [(''success'', JBool True),
        (''filename'', JStr ''screenshot_0f.jpg''),
        (''message'', JStr ''Screenshot captured successfully'')])) \<and>
   fst (get_screenshot ''0f'' eng_ok
          ((query_only_url ''https://example.com'')\<lparr>query_format := Some ''jpeg''\<rparr>) w_empty) =
     Response 200 (JsonBody (JObj [(''success'', JBool True),
        (''filename'', JStr ''screenshot_0f.jpg''),
        (''message'', JStr ''Screenshot captured successfully''),
        (''download_url'', JStr ''/download/screenshot_0f.jpg'')]))"
proof -
  let ?b = "(body_only_url ''https://example.com'')\<lparr>body_format := Given ''jpg''\<rparr>"
  let ?q = "(query_only_url ''https://example.com'')\<lparr>query_format := Some ''jpeg''\<rparr>"
  obtain fn where c: "fst (capture_screenshot ''0f'' eng_ok ''https://example.com'' 800 600
      (Some False) ''jpeg'' (Some 80) (Some 30000) w_empty) = Inr fn"
    by (simp add: eng_ok_capture)
  obtain p where p: "fst (post_screenshot accept_url ''0f'' eng_ok ?b w_empty) = Response 200 p"
    using post_jpg_200 by blast
  obtain p' where g: "fst (get_screenshot ''0f'' eng_ok ?q w_empty) = Response 200 p'"
    using get_jpeg_200 by blast
  note t = filename_extension_matches_format [where hex = "''0f''" and eng = eng_ok
      and u = "''https://example.com''" and wd = 800 and ht = 600 and fp = "Some False"
      and fmt = "''jpeg''" and q = "Some 80" and t = "Some 30000" and w = w_empty
      and filename = fn and http_url = accept_url and b = ?b and p = p and qr = ?q and p' = p']
  from t c have "fn = ''screenshot_0f.jpg''"
    by simp
  moreover from t p have "p = JsonBody (JObj [(''success'', JBool True),
        (''filename'', JStr ''screenshot_0f.jpg''),
        (''message'', JStr ''Screenshot captured successfully'')])"
    by (auto simp add: body_only_url_def)
  moreover from t g have "p' = JsonBody (JObj [(''success'', JBool True),
        (''filename'', JStr ''screenshot_0f.jpg''),
        (''message'', JStr ''Screenshot captured successfully''),
        (''download_url'', JStr ''/download/screenshot_0f.jpg'')])"
    by (auto simp add: query_only_url_def)
  ultimately show ?thesis
    using c p g by simp
qed

subsection \<open>Bounds of the query parameters, and the timeout of the body\<close>

lemma parse_query_out_of_range:
  assumes "(\<exists>v. query_width qr = Some v \<and> (v < 100 \<or> 3840 < v)) \<or>
    (\<exists>v. query_height qr = Some v \<and> (v < 100 \<or> 2160 < v)) \<or>
    (\<exists>v. query_quality qr = Some v \<and> (v < 1 \<or> 100 < v)) \<or>
    (\<exists>v. query_timeout qr = Some v \<and> (v < 5000 \<or> 120000 < v))"
  shows "\<exists>m. parse_query qr = Inl (RequestValidationError m)"
proof (cases "parse_query qr")
  case (Inl e)
  then show ?thesis using parse_query_error by blast
next
  case (Inr args)
  obtain u wd ht fp f q t where "args = (u, wd, ht, fp, f, q, t)"
    by (cases args)
  with Inr have "Query_int ''width'' 1920 100 3840 (query_width qr) = Inr wd"
    "Query_int ''height'' 1080 100 2160 (query_height qr) = Inr ht"
    "Query_int ''quality'' 80 1 100 (query_quality qr) = Inr q"
    "Query_int ''timeout'' 30000 5000 120000 (query_timeout qr) = Inr t"
    by (simp_all add: parse_query_Inr)
  with assms show ?thesis
    by (auto simp add: Query_int_Inr)
qed


lemma parse_query_in_range:
  assumes "query_url qr = Some u"
    "\<forall>v. query_width qr = Some v \<longrightarrow> 100 \<le> v \<and> v \<le> 3840"
    "\<forall>v. query_height qr = Some v \<longrightarrow> 100 \<le> v \<and> v \<le> 2160"
    "\<forall>v. query_quality qr = Some v \<longrightarrow> 1 \<le> v \<and> v \<le> 100"
    "\<forall>v. query_timeout qr = Some v \<longrightarrow> 5000 \<le> v \<and> v \<le> 120000"
    "\<forall>v. query_format qr = Some v \<longrightarrow> v \<in> set [''png'', ''jpeg'', ''jpg'']"
  shows "\<exists>wd ht fp f q t. parse_query qr = Inr (u, wd, ht, fp, f, q, t)"
proof -
  obtain wd where 1: "Query_int ''width'' 1920 100 3840 (query_width qr) = Inr wd"
    using assms(2) by (cases "query_width qr") (simp_all add: Query_int_def)
  obtain ht where 2: "Query_int ''height'' 1080 100 2160 (query_height qr) = Inr ht"
    using assms(3) by (cases "query_height qr") (simp_all add: Query_int_def)
  obtain q where 3: "Query_int ''quality'' 80 1 100 (query_quality qr) = Inr q"
    using assms(4) by (cases "query_quality qr") (simp_all add: Query_int_def)
  obtain t where 4: "Query_int ''timeout'' 30000 5000 120000 (query_timeout qr) = Inr t"
    using assms(5) by (cases "query_timeout qr") (simp_all add: Query_int_def)
  obtain f where 5: "Query_format (query_format qr) = Inr f"
    using assms(6) by (cases "query_format qr") (simp_all add: Query_format_def)
  from assms(1) 1 2 3 4 5 show ?thesis
    by (simp add: parse_query_Inr)
qed

lemma get_screenshot_parsed_status:
  assumes "parse_query qr = Inr (u, wd, ht, fp, f, q, t)"
  shows "status (fst (get_screenshot hex eng qr w)) = 200 \<or>
         status (fst (get_screenshot hex eng qr w)) = 500"
proof -
  obtain x w' where g: "get_try hex eng u wd ht fp f q t w = (x, w')"
    by (cases "get_try hex eng u wd ht fp f q t w")
  show ?thesis
  proof (cases x)
    case (Inl e)
    with assms g show ?thesis
      by (simp add: get_screenshot_def take_screenshot_get_def respond_def)
  next
    case r: (Inr r)
    with g get_try_filename [of hex eng u wd ht fp f q t w r w'] obtain j where "r = Json j"
      by blast
    with r assms g show ?thesis
      by (simp add: get_screenshot_def take_screenshot_get_def respond_def)
  qed
qed

text \<open>
  C9. On \<open>GET /screenshot\<close> a width outside 100..3840, a height outside 100..2160, a
  quality outside 1..100 or a timeout outside 5000..120000 is refused with 422 where the
  parameters are read, and the state is unchanged: no capture, no browser call; values
  within these bounds, the bounds included, are not refused there. On
  \<open>POST /screenshot\<close> the body is read with any integer as its timeout, and a body that
  passes the checks of the handler reaches \<open>capture_screenshot\<close> with that timeout.
\<close>

theorem query_bounds_and_body_timeout:
  "((\<exists>v. query_width qr = Some v \<and> (v < 100 \<or> 3840 < v)) \<or>
    (\<exists>v. query_height qr = Some v \<and> (v < 100 \<or> 2160 < v)) \<or>
    (\<exists>v. query_quality qr = Some v \<and> (v < 1 \<or> 100 < v)) \<or>
    (\<exists>v. query_timeout qr = Some v \<and> (v < 5000 \<or> 120000 < v)) \<longrightarrow>
      status (fst (get_screenshot hex eng qr w)) = 422 \<and>
      snd (get_screenshot hex eng qr w) = w) \<and>
   (query_url qr = Some u \<and>
    (\<forall>v. query_width qr = Some v \<longrightarrow> 100 \<le> v \<and> v \<le> 3840) \<and>
    (\<forall>v. query_height qr = Some v \<longrightarrow> 100 \<le> v \<and> v \<le> 2160) \<and>
    (\<forall>v. query_quality qr = Some v \<longrightarrow> 1 \<le> v \<and> v \<le> 100) \<and>
    (\<forall>v. query_timeout qr = Some v \<longrightarrow> 5000 \<le> v \<and> v \<le> 120000) \<and>
    (\<forall>v. query_format qr = Some v \<longrightarrow> v \<in> set [''png'', ''jpeg'', ''jpg'']) \<longrightarrow>
      status (fst (get_screenshot hex eng qr w)) \<noteq> 422) \<and>
   (body_url b = Given v \<and> http_url v = Some s \<and>
    optional_field ''png'' (body_format b) = Some f \<and> f \<in> set [''png'', ''jpeg'', ''jpg''] \<and>
    (f \<noteq> ''png'' \<longrightarrow>
       (\<exists>ql. optional_field 80 (body_quality b) = Some ql \<and> 1 \<le> ql \<and> ql \<le> 100)) \<and>
    optional_field 1920 (body_width b) = Some wd \<and> 100 \<le> wd \<and> wd \<le> 3840 \<and>
    optional_field 1080 (body_height b) = Some ht \<and> 100 \<le> ht \<and> ht \<le> 2160 \<longrightarrow>
      parse_body http_url (b\<lparr>body_timeout := Given t\<rparr>) =
        Inr \<lparr>url = s, width = Some wd, height = Some ht,
             full_page = optional_field False (body_full_page b), format = Some f,
             quality = optional_field 80 (body_quality b), timeout = Some t\<rparr> \<and>
      captures (snd (post_screenshot http_url hex eng (b\<lparr>body_timeout := Given t\<rparr>) w)) =
        captures w @ [CaptureCall s wd ht (optional_field False (body_full_page b))
           (format_normalized f) (optional_field 80 (body_quality b)) (Some t)])"
proof (intro conjI impI)
  assume a: "(\<exists>v. query_width qr = Some v \<and> (v < 100 \<or> 3840 < v)) \<or>
    (\<exists>v. query_height qr = Some v \<and> (v < 100 \<or> 2160 < v)) \<or>
    (\<exists>v. query_quality qr = Some v \<and> (v < 1 \<or> 100 < v)) \<or>
    (\<exists>v. query_timeout qr = Some v \<and> (v < 5000 \<or> 120000 < v))"
  obtain m where "parse_query qr = Inl (RequestValidationError m)"
    using parse_query_out_of_range [OF a] by blast
  then have "get_screenshot hex eng qr w =
      (Response 422 (JsonBody (JObj [(''detail'', JStr m)])), w)"
    by (simp add: get_screenshot_def respond_validation_error)
  then show "status (fst (get_screenshot hex eng qr w)) = 422"
    and "snd (get_screenshot hex eng qr w) = w"
    by simp_all
next
  assume a: "query_url qr = Some u \<and>
    (\<forall>v. query_width qr = Some v \<longrightarrow> 100 \<le> v \<and> v \<le> 3840) \<and>
    (\<forall>v. query_height qr = Some v \<longrightarrow> 100 \<le> v \<and> v \<le> 2160) \<and>
    (\<forall>v. query_quality qr = Some v \<longrightarrow> 1 \<le> v \<and> v \<le> 100) \<and>
    (\<forall>v. query_timeout qr = Some v \<longrightarrow> 5000 \<le> v \<and> v \<le> 120000) \<and>
    (\<forall>v. query_format qr = Some v \<longrightarrow> v \<in> set [''png'', ''jpeg'', ''jpg''])"
  then obtain wd1 ht1 fp1 f1 q1 t1 where
    "parse_query qr = Inr (u, wd1, ht1, fp1, f1, q1, t1)"
    using parse_query_in_range [of qr u] by blast
  from get_screenshot_parsed_status [OF this, of hex eng w]
  show "status (fst (get_screenshot hex eng qr w)) \<noteq> 422"
    by auto
next
  assume a: "body_url b = Given v \<and> http_url v = Some s \<and>
    optional_field ''png'' (body_format b) = Some f \<and> f \<in> set [''png'', ''jpeg'', ''jpg''] \<and>
    (f \<noteq> ''png'' \<longrightarrow>
       (\<exists>ql. optional_field 80 (body_quality b) = Some ql \<and> 1 \<le> ql \<and> ql \<le> 100)) \<and>
    optional_field 1920 (body_width b) = Some wd \<and> 100 \<le> wd \<and> wd \<le> 3840 \<and>
    optional_field 1080 (body_height b) = Some ht \<and> 100 \<le> ht \<and> ht \<le> 2160"
  let ?r = "\<lparr>url = s, width = Some wd, height = Some ht,
             full_page = optional_field False (body_full_page b), format = Some f,
             quality = optional_field 80 (body_quality b), timeout = Some t\<rparr>"
  from a show pb: "parse_body http_url (b\<lparr>body_timeout := Given t\<rparr>) = Inr ?r"
    by (simp add: parse_body_def)
  have "captures (snd (post_try hex eng ?r w)) =
      captures w @ [CaptureCall (url ?r) wd ht (full_page ?r) (format_normalized f)
         (quality ?r) (timeout ?r)]"
    using a by (intro post_try_valid_captures) simp_all
  then show "captures (snd (post_screenshot http_url hex eng (b\<lparr>body_timeout := Given t\<rparr>) w)) =
        captures w @ [CaptureCall s wd ht (optional_field False (body_full_page b))
           (format_normalized f) (optional_field 80 (body_quality b)) (Some t)]"
    using take_screenshot_post_world [of hex eng ?r w]
    by (simp add: post_screenshot_def pb case_prod_beta)
qed

theorem query_bounds_and_body_timeout_witness:
  "status (fst (get_screenshot ''0f'' eng_ok ((query_only_url ''https://example.com'')
       \<lparr>query_format := Some ''jpeg'', query_quality := Some 150\<rparr>) w_empty)) = 422 \<and>
   snd (get_screenshot ''0f'' eng_ok ((query_only_url ''https://example.com'')
       \<lparr>query_format := Some ''jpeg'', query_quality := Some 150\<rparr>) w_empty) = w_empty \<and>
   status (fst (get_screenshot ''0f'' eng_ok ((query_only_url ''https://example.com'')
       \<lparr>query_width := Some 100, query_height := Some 2160, query_quality := Some 1,
        query_timeout := Some 120000\<rparr>) w_empty)) \<noteq> 422 \<and>
   captures (snd (post_screenshot accept_url ''0f'' eng_ok
      ((body_only_url ''https://example.com'')\<lparr>body_timeout := Given 1\<rparr>) w_empty)) =
     [CaptureCall ''https://example.com'' 1920 1080 (Some False) ''png'' (Some 80) (Some 1)] \<and>
   captures (snd (post_screenshot accept_url ''0f'' eng_ok
      ((body_only_url ''https://example.com'')\<lparr>body_timeout := Given 999999999\<rparr>) w_empty)) =
     [CaptureCall ''https://example.com'' 1920 1080 (Some False) ''png'' (Some 80)
        (Some 999999999)]"
proof -
  let ?q = "(query_only_url ''https://example.com'')
       \<lparr>query_format := Some ''jpeg'', query_quality := Some 150\<rparr>"
  let ?q2 = "(query_only_url ''https://example.com'')
       \<lparr>query_width := Some 100, query_height := Some 2160, query_quality := Some 1,
        query_timeout := Some 120000\<rparr>"
  let ?b = "body_only_url ''https://example.com''"
  have h: "(\<exists>v. query_width ?q = Some v \<and> (v < 100 \<or> 3840 < v)) \<or>
    (\<exists>v. query_height ?q = Some v \<and> (v < 100 \<or> 2160 < v)) \<or>
    (\<exists>v. query_quality ?q = Some v \<and> (v < 1 \<or> 100 < v)) \<or>
    (\<exists>v. query_timeout ?q = Some v \<and> (v < 5000 \<or> 120000 < v))"
    by (simp add: query_only_url_def)
  have h2: "query_url ?q2 = Some ''https://example.com'' \<and>
    (\<forall>v. query_width ?q2 = Some v \<longrightarrow> 100 \<le> v \<and> v \<le> 3840) \<and>
    (\<forall>v. query_height ?q2 = Some v \<longrightarrow> 100 \<le> v \<and> v \<le> 2160) \<and>
    (\<forall>v. query_quality ?q2 = Some v \<longrightarrow> 1 \<le> v \<and> v \<le> 100) \<and>
    (\<forall>v. query_timeout ?q2 = Some v \<longrightarrow> 5000 \<le> v \<and> v \<le> 120000) \<and>
    (\<forall>v. query_format ?q2 = Some v \<longrightarrow> v \<in> set [''png'', ''jpeg'', ''jpg''])"
    by (simp add: query_only_url_def)
  have h3: "body_url ?b = Given ''https://example.com'' \<and>
    accept_url ''https://example.com'' = Some ''https://example.com'' \<and>
    optional_field ''png'' (body_format ?b) = Some ''png'' \<and>
    ''png'' \<in> set [''png'', ''jpeg'', ''jpg''] \<and>
    (''png'' \<noteq> ''png'' \<longrightarrow>
       (\<exists>ql. optional_field 80 (body_quality ?b) = Some ql \<and> 1 \<le> ql \<and> ql \<le> 100)) \<and>
    optional_field 1920 (body_width ?b) = Some 1920 \<and> (100::int) \<le> 1920 \<and> (1920::int) \<le> 3840 \<and>
    optional_field 1080 (body_height ?b) = Some 1080 \<and> (100::int) \<le> 1080 \<and> (1080::int) \<le> 2160"
    by (simp add: body_only_url_def accept_url_def)
  have f: "optional_field False (body_full_page ?b) = Some False"
    "optional_field 80 (body_quality ?b) = Some 80"
    by (simp_all add: body_only_url_def)
  note c1 = query_bounds_and_body_timeout [where qr = ?q and hex = "''0f''" and eng = eng_ok
      and w = w_empty, THEN conjunct1, THEN mp, OF h]
  note c2 = query_bounds_and_body_timeout [where qr = ?q2 and hex = "''0f''" and eng = eng_ok
      and w = w_empty and u = "''https://example.com''", THEN conjunct2, THEN conjunct1,
      THEN mp, OF h2]
  note c3 = query_bounds_and_body_timeout [where b = ?b and http_url = accept_url
      and v = "''https://example.com''" and s = "''https://example.com''" and f = "''png''"
      and wd = 1920 and ht = 1080 and t = 1 and hex = "''0f''" and eng = eng_ok and w = w_empty,
      THEN conjunct2, THEN conjunct2, THEN mp, OF h3, THEN conjunct2]
  note c4 = query_bounds_and_body_timeout [where b = ?b and http_url = accept_url
      and v = "''https://example.com''" and s = "''https://example.com''" and f = "''png''"
      and wd = 1920 and ht = 1080 and t = 999999999 and hex = "''0f''" and eng = eng_ok
      and w = w_empty, THEN conjunct2, THEN conjunct2, THEN mp, OF h3, THEN conjunct2]
  from c1 c2 c3 c4 f show ?thesis
    by (simp add: w_empty_def format_normalized_def)
qed

subsection \<open>Defaults\<close>

text \<open>
  C10. On both entry points every parameter but \<open>url\<close> may be left out, and a parameter
  left out takes the same value on each: width 1920, height 1080, full_page false, format
  "png", quality 80, timeout 30000. A request that gives the URL only starts the same
  capture on both; a request without a URL is refused with 422.
\<close>

theorem defaults_on_both_entry_points:
  "(parse_body http_url b = Inr request \<longrightarrow>
      (body_width b = Omitted \<longrightarrow> width request = Some 1920) \<and>
      (body_height b = Omitted \<longrightarrow> height request = Some 1080) \<and>
      (body_full_page b = Omitted \<longrightarrow> full_page request = Some False) \<and>
      (body_format b = Omitted \<longrightarrow> format request = Some ''png'') \<and>
      (body_quality b = Omitted \<longrightarrow> quality request = Some 80) \<and>
      (body_timeout b = Omitted \<longrightarrow> timeout request = Some 30000)) \<and>
   (parse_query qr = Inr (u, wd, ht, fp, f, q, t) \<longrightarrow>
      (query_width qr = None \<longrightarrow> wd = 1920) \<and>
      (query_height qr = None \<longrightarrow> ht = 1080) \<and>
      (query_full_page qr = None \<longrightarrow> fp = False) \<and>
      (query_format qr = None \<longrightarrow> f = ''png'') \<and>
      (query_quality qr = None \<longrightarrow> q = 80) \<and>
      (query_timeout qr = None \<longrightarrow> t = 30000)) \<and>
   (http_url v = Some s \<longrightarrow>
      parse_body http_url (body_only_url v) =
        Inr \<lparr>url = s, width = Some 1920, height = Some 1080, full_page = Some False,
             format = Some ''png'', quality = Some 80, timeout = Some 30000\<rparr> \<and>
      captures (snd (post_screenshot http_url hex eng (body_only_url v) w)) =
        captures w @ [CaptureCall s 1920 1080 (Some False) ''png'' (Some 80) (Some 30000)]) \<and>
   parse_query (query_only_url v) = Inr (v, 1920, 1080, False, ''png'', 80, 30000) \<and>
   (prefix ''http://'' v \<or> prefix ''https://'' v \<longrightarrow>
      captures (snd (get_screenshot hex eng (query_only_url v) w)) =
        captures w @ [CaptureCall v 1920 1080 (Some False) ''png'' (Some 80) (Some 30000)]) \<and>
   (body_url b = Omitted \<longrightarrow> post_screenshot http_url hex eng b w =
      (Response 422 (JsonBody (JObj [(''detail'', JStr ''url: field required'')])), w)) \<and>
   (query_url qr = None \<longrightarrow> get_screenshot hex eng qr w =
      (Response 422 (JsonBody (JObj [(''detail'', JStr ''url: field required'')])), w))"
proof (intro conjI impI)
  assume "parse_body http_url b = Inr request"
  then have r: "width request = optional_field 1920 (body_width b)"
    "height request = optional_field 1080 (body_height b)"
    "full_page request = optional_field False (body_full_page b)"
    "format request = optional_field ''png'' (body_format b)"
    "quality request = optional_field 80 (body_quality b)"
    "timeout request = optional_field 30000 (body_timeout b)"
    by (auto simp add: parse_body_def split: field.splits option.splits)
  { assume "body_width b = Omitted" with r show "width request = Some 1920" by simp }
  { assume "body_height b = Omitted" with r show "height request = Some 1080" by simp }
  { assume "body_full_page b = Omitted" with r show "full_page request = Some False" by simp }
  { assume "body_format b = Omitted" with r show "format request = Some ''png''" by simp }
  { assume "body_quality b = Omitted" with r show "quality request = Some 80" by simp }
  { assume "body_timeout b = Omitted" with r show "timeout request = Some 30000" by simp }
next
  assume "parse_query qr = Inr (u, wd, ht, fp, f, q, t)"
  then have r: "Query_int ''width'' 1920 100 3840 (query_width qr) = Inr wd"
     "Query_int ''height'' 1080 100 2160 (query_height qr) = Inr ht"
     "Query_format (query_format qr) = Inr f"
     "Query_int ''quality'' 80 1 100 (query_quality qr) = Inr q"
     "Query_int ''timeout'' 30000 5000 120000 (query_timeout qr) = Inr t"
     "fp = (case query_full_page qr of None \<Rightarrow> False | Some b \<Rightarrow> b)"
    by (simp_all add: parse_query_Inr)
  { assume "query_width qr = None" with r show "wd = 1920" by (simp add: Query_int_def) }
  { assume "query_height qr = None" with r show "ht = 1080" by (simp add: Query_int_def) }
  { assume "query_full_page qr = None" with r show "fp = False" by simp }
  { assume "query_format qr = None" with r show "f = ''png''" by (simp add: Query_format_def) }
  { assume "query_quality qr = None" with r show "q = 80" by (simp add: Query_int_def) }
  { assume "query_timeout qr = None" with r show "t = 30000" by (simp add: Query_int_def) }
next
  assume h: "http_url v = Some s"
  then show pb: "parse_body http_url (body_only_url v) =
        Inr \<lparr>url = s, width = Some 1920, height = Some 1080, full_page = Some False,
             format = Some ''png'', quality = Some 80, timeout = Some 30000\<rparr>"
    by (simp add: parse_body_def body_only_url_def)
  have "captures (snd (post_try hex eng \<lparr>url = s, width = Some 1920, height = Some 1080,
             full_page = Some False, format = Some ''png'', quality = Some 80,
             timeout = Some 30000\<rparr> w)) =
        captures w @ [CaptureCall s 1920 1080 (Some False) ''png'' (Some 80) (Some 30000)]"
    using post_try_valid_captures [of "\<lparr>url = s, width = Some 1920, height = Some 1080,
             full_page = Some False, format = Some ''png'', quality = Some 80,
             timeout = Some 30000\<rparr>" "''png''" 1920 1080 hex eng w]
    by (simp add: format_normalized_def)
  then show "captures (snd (post_screenshot http_url hex eng (body_only_url v) w)) =
        captures w @ [CaptureCall s 1920 1080 (Some False) ''png'' (Some 80) (Some 30000)]"
    using take_screenshot_post_world [of hex eng "\<lparr>url = s, width = Some 1920, height = Some 1080,
             full_page = Some False, format = Some ''png'', quality = Some 80,
             timeout = Some 30000\<rparr>" w]
    by (simp add: post_screenshot_def pb case_prod_beta)
next
  show pq: "parse_query (query_only_url v) = Inr (v, 1920, 1080, False, ''png'', 80, 30000)"
    by (simp add: parse_query_Inr query_only_url_def Query_int_def Query_format_def)
  assume h: "prefix ''http://'' v \<or> prefix ''https://'' v"
  then have "captures (snd (get_try hex eng v 1920 1080 False ''png'' 80 30000 w)) =
        captures w @ [CaptureCall v 1920 1080 (Some False) ''png'' (Some 80) (Some 30000)]"
    by (simp add: get_try_def case_prod_beta capture_screenshot_captures format_normalized_def
        split: sum.splits)
  then show "captures (snd (get_screenshot hex eng (query_only_url v) w)) =
        captures w @ [CaptureCall v 1920 1080 (Some False) ''png'' (Some 80) (Some 30000)]"
    using take_screenshot_get_world [of hex eng v 1920 1080 False "''png''" 80 30000 w]
    by (simp add: get_screenshot_def pq case_prod_beta)
next
  assume "body_url b = Omitted"
  then show "post_screenshot http_url hex eng b w =
      (Response 422 (JsonBody (JObj [(''detail'', JStr ''url: field required'')])), w)"
    by (simp add: post_screenshot_def parse_body_def respond_validation_error)
next
  assume "query_url qr = None"
  then show "get_screenshot hex eng qr w =
      (Response 422 (JsonBody (JObj [(''detail'', JStr ''url: field required'')])), w)"
    by (simp add: get_screenshot_def parse_query_def respond_validation_error)
qed

theorem defaults_on_both_entry_points_witness:
  "accept_url ''https://example.com'' = Some ''https://example.com'' \<and>
   captures (snd (post_screenshot accept_url ''0f'' eng_ok
      (body_only_url ''https://example.com'') w_empty)) =
     [CaptureCall ''https://example.com'' 1920 1080 (Some False) ''png'' (Some 80)
        (Some 30000)] \<and>
   captures (snd (get_screenshot ''0f'' eng_ok
      (query_only_url ''https://example.com'') w_empty)) =
     [CaptureCall ''https://example.com'' 1920 1080 (Some False) ''png'' (Some 80)
        (Some 30000)] \<and>
   fst (post_screenshot accept_url ''0f'' eng_ok
      ((body_only_url ''https://example.com'')\<lparr>body_url := Omitted\<rparr>) w_empty) =
     Response 422 (JsonBody (JObj [(''detail'', JStr ''url: field required'')])) \<and>
   fst (get_screenshot ''0f'' eng_ok
      ((query_only_url ''https://example.com'')\<lparr>query_url := None\<rparr>) w_empty) =
     Response 422 (JsonBody (JObj [(''detail'', JStr ''url: field required'')]))"
proof -
  let ?b = "(body_only_url ''https://example.com'')\<lparr>body_url := Omitted\<rparr>"
  let ?q = "(query_only_url ''https://example.com'')\<lparr>query_url := None\<rparr>"
  have a: "accept_url ''https://example.com'' = Some ''https://example.com''"
    by (simp add: accept_url_def)
  have h: "prefix ''http://'' ''https://example.com'' \<or>
      prefix ''https://'' ''https://example.com''"
    by simp
  have b: "body_url ?b = Omitted"
    by (simp add: body_only_url_def)
  have q: "query_url ?q = None"
    by (simp add: query_only_url_def)
  note t = defaults_on_both_entry_points [where http_url = accept_url and b = ?b and qr = ?q
      and v = "''https://example.com''" and s = "''https://example.com''" and hex = "''0f''"
      and eng = eng_ok and w = w_empty]
  from t a have "captures (snd (post_screenshot accept_url ''0f'' eng_ok
      (body_only_url ''https://example.com'') w_empty)) =
     captures w_empty @ [CaptureCall ''https://example.com'' 1920 1080 (Some False) ''png''
        (Some 80) (Some 30000)]"
    by blast
  moreover from t h have "captures (snd (get_screenshot ''0f'' eng_ok
      (query_only_url ''https://example.com'') w_empty)) =
     captures w_empty @ [CaptureCall ''https://example.com'' 1920 1080 (Some False) ''png''
        (Some 80) (Some 30000)]"
    by blast
  moreover from t b have "post_screenshot accept_url ''0f'' eng_ok ?b w_empty =
      (Response 422 (JsonBody (JObj [(''detail'', JStr ''url: field required'')])), w_empty)"
    by blast
  moreover from t q have "get_screenshot ''0f'' eng_ok ?q w_empty =
      (Response 422 (JsonBody (JObj [(''detail'', JStr ''url: field required'')])), w_empty)"
    by blast
  ultimately show ?thesis
    using a by (simp add: w_empty_def)
qed

subsection \<open>Download\<close>

lemma path_stat_entry:
  assumes "length filename \<le> NAME_MAX" "filename \<noteq> ''.''" "filename \<noteq> ''..''"
  shows "path_stat w filename = Inr (map_of (storage w) filename)"
  using assms by (simp add: path_stat_def)

lemma path_stat_dots:
  assumes "filename = ''.'' \<or> filename = ''..''"
  shows "path_stat w filename = Inr (Some Directory)"
  using assms by (auto simp add: path_stat_def NAME_MAX_def)

lemma path_stat_too_long:
  assumes "NAME_MAX < length filename"
  shows "path_stat w filename = Inl (OSError ''File name too long'')"
  using assms by (simp add: path_stat_def)

lemma drop_dir: "drop (length d + 1) (d @ CHR ''/'' # name) = name"
  by simp

lemma read_file_path:
  "read_file w (TEMP_DIR @ CHR ''/'' # name) =
     (case path_stat w name of Inr (Some (RegularFile bs t)) \<Rightarrow> Some bs | _ \<Rightarrow> None)"
  unfolding read_file_def drop_dir ..

text \<open>
  C7, amended. \<open>GET /download/{filename}\<close> answers 404 when nothing exists under the
  name in the directory; when a regular file is stored under the name it sends the bytes of
  the file with the media type \<open>image/png\<close> if the name ends in \<open>.png\<close> and
  \<open>image/jpeg\<close> for every other name; a name under which something other than a
  regular file exists (\<open>.\<close>, \<open>..\<close>, a subdirectory) and a name too long for the file
  system are answered 500.
\<close>

theorem download_media_type:
  "(length filename \<le> NAME_MAX \<and> filename \<noteq> ''.'' \<and> filename \<noteq> ''..'' \<and>
    map_of (storage w) filename = None \<longrightarrow>
      get_download filename w =
        Response 404 (JsonBody (JObj [(''detail'', JStr ''Screenshot not found'')]))) \<and>
   (length filename \<le> NAME_MAX \<and> filename \<noteq> ''.'' \<and> filename \<noteq> ''..'' \<and>
    map_of (storage w) filename = Some (RegularFile bs t) \<longrightarrow>
      get_download filename w =
        Response 200 (FileBody bs
          (if suffix ''.png'' filename then ''image/png'' else ''image/jpeg'') filename)) \<and>
   (length filename \<le> NAME_MAX \<and>
    (filename = ''.'' \<or> filename = ''..'' \<or> map_of (storage w) filename = Some Directory) \<longrightarrow>
      get_download filename w = Response 500 (TextBody ''Internal Server Error'')) \<and>
   (NAME_MAX < length filename \<longrightarrow>
      get_download filename w = Response 500 (TextBody ''Internal Server Error''))"
proof (intro conjI impI)
  assume a: "length filename \<le> NAME_MAX \<and> filename \<noteq> ''.'' \<and> filename \<noteq> ''..'' \<and>
    map_of (storage w) filename = None"
  then have "path_stat w filename = Inr None"
    by (simp add: path_stat_entry)
  then show "get_download filename w =
        Response 404 (JsonBody (JObj [(''detail'', JStr ''Screenshot not found'')]))"
    by (simp add: get_download_def download_screenshot_def path_exists_def respond_def)
next
  assume a: "length filename \<le> NAME_MAX \<and> filename \<noteq> ''.'' \<and> filename \<noteq> ''..'' \<and>
    map_of (storage w) filename = Some (RegularFile bs t)"
  then have "path_stat w filename = Inr (Some (RegularFile bs t))"
    by (simp add: path_stat_entry)
  then show "get_download filename w =
        Response 200 (FileBody bs
          (if suffix ''.png'' filename then ''image/png'' else ''image/jpeg'') filename)"
    by (simp add: get_download_def download_screenshot_def path_exists_def respond_def
        read_file_path)
next
  assume a: "length filename \<le> NAME_MAX \<and>
    (filename = ''.'' \<or> filename = ''..'' \<or> map_of (storage w) filename = Some Directory)"
  have "path_stat w filename = Inr (Some Directory)"
  proof (cases "filename = ''.'' \<or> filename = ''..''")
    case True
    then show ?thesis by (rule path_stat_dots)
  next
    case False
    with a show ?thesis by (simp add: path_stat_entry)
  qed
  then show "get_download filename w = Response 500 (TextBody ''Internal Server Error'')"
    by (simp add: get_download_def download_screenshot_def path_exists_def respond_def
        read_file_path)
next
  assume "NAME_MAX < length filename"
  then have "path_stat w filename = Inl (OSError ''File name too long'')"
    by (rule path_stat_too_long)
  then show "get_download filename w = Response 500 (TextBody ''Internal Server Error'')"
    by (simp add: get_download_def download_screenshot_def path_exists_def respond_def)
qed

text \<open>
  C7 as the specification words it fails at \<open>..\<close>: no file of that name is stored, yet
  \<open>exists()\<close> is true of it and the answer is 500, not 404.
\<close>

theorem download_counterexample:
  "map_of (storage w_stored) ''..'' = None \<and>
   get_download ''..'' w_stored = Response 500 (TextBody ''Internal Server Error'') \<and>
   status (get_download ''..'' w_stored) \<noteq> 404"
  by (simp add: get_download_def download_screenshot_def path_exists_def path_stat_def
      NAME_MAX_def respond_def read_file_path w_stored_def)

theorem download_media_type_witness:
  "map_of (storage w_stored) ''missing.png'' = None \<and>
   get_download ''missing.png'' w_stored =
     Response 404 (JsonBody (JObj [(''detail'', JStr ''Screenshot not found'')])) \<and>
   get_download ''screenshot_0a.png'' w_stored =
     Response 200 (FileBody [137, 80, 78, 71] ''image/png'' ''screenshot_0a.png'') \<and>
   get_download ''screenshot_1b.jpg'' w_stored =
     Response 200 (FileBody [255, 216, 255] ''image/jpeg'' ''screenshot_1b.jpg'') \<and>
   get_download ''notes.txt'' w_stored =
     Response 200 (FileBody [104, 105] ''image/jpeg'' ''notes.txt'') \<and>
   get_download ''screenshot_old'' w_stored = Response 500 (TextBody ''Internal Server Error'') \<and>
   get_download ''.'' w_stored = Response 500 (TextBody ''Internal Server Error'') \<and>
   get_download (replicate 256 CHR ''a'') w_stored =
     Response 500 (TextBody ''Internal Server Error'')"
proof -
  have a: "map_of (storage w_stored) ''missing.png'' = None"
    and b: "map_of (storage w_stored) ''screenshot_0a.png'' = Some (RegularFile [137, 80, 78, 71] 5)"
    and c: "map_of (storage w_stored) ''screenshot_1b.jpg'' = Some (RegularFile [255, 216, 255] 7)"
    and d: "map_of (storage w_stored) ''notes.txt'' = Some (RegularFile [104, 105] 6)"
    and e: "map_of (storage w_stored) ''screenshot_old'' = Some Directory"
    by (simp_all add: w_stored_def)
  have s: "suffix ''.png'' ''screenshot_0a.png''" "\<not> suffix ''.png'' ''screenshot_1b.jpg''"
    "\<not> suffix ''.png'' ''notes.txt''"
    by (simp_all add: suffix_def)
  from a download_media_type [of "''missing.png''" w_stored]
  have "get_download ''missing.png'' w_stored =
     Response 404 (JsonBody (JObj [(''detail'', JStr ''Screenshot not found'')]))"
    by (simp add: NAME_MAX_def)
  moreover from b s download_media_type [of "''screenshot_0a.png''" w_stored "[137, 80, 78, 71]" 5]
  have "get_download ''screenshot_0a.png'' w_stored =
     Response 200 (FileBody [137, 80, 78, 71] ''image/png'' ''screenshot_0a.png'')"
    by (simp add: NAME_MAX_def)
  moreover from c s download_media_type [of "''screenshot_1b.jpg''" w_stored "[255, 216, 255]" 7]
  have "get_download ''screenshot_1b.jpg'' w_stored =
     Response 200 (FileBody [255, 216, 255] ''image/jpeg'' ''screenshot_1b.jpg'')"
    by (simp add: NAME_MAX_def)
  moreover from d s download_media_type [of "''notes.txt''" w_stored "[104, 105]" 6]
  have "get_download ''notes.txt'' w_stored =
     Response 200 (FileBody [104, 105] ''image/jpeg'' ''notes.txt'')"
    by (simp add: NAME_MAX_def)
  moreover from e download_media_type [of "''screenshot_old''" w_stored]
  have "get_download ''screenshot_old'' w_stored = Response 500 (TextBody ''Internal Server Error'')"
    by (simp add: NAME_MAX_def)
  moreover from download_media_type [of "''.''" w_stored]
  have "get_download ''.'' w_stored = Response 500 (TextBody ''Internal Server Error'')"
    by (simp add: NAME_MAX_def)
  moreover from download_media_type [of "replicate 256 CHR ''a''" w_stored]
  have "get_download (replicate 256 CHR ''a'') w_stored =
     Response 500 (TextBody ''Internal Server Error'')"
    by (simp add: NAME_MAX_def)
  ultimately show ?thesis using a by simp
qed

subsection \<open>Delete\<close>




subsection \<open>List\<close>

lemma list_loop_filter:
  "list_loop st acc =
     acc @ map (\<lambda>(n, e). file_info n e)
             (filter (\<lambda>(n, e). prefix ''screenshot_'' n \<and> is_file e) st)"
  by (induction st acc rule: list_loop.induct) simp_all

lemma file_info_name:
  "file_info n e = file_info n' e' \<Longrightarrow> n = n'"
  by (cases e; cases e') auto

lemma is_file_iff: "is_file e \<longleftrightarrow> (\<exists>bs t. e = RegularFile bs t)"
  by (cases e) auto

lemma list_loop_distinct:
  assumes "distinct (map fst st)"
  shows "distinct (list_loop st [])"
proof -
  let ?ms = "filter (\<lambda>(n, e). prefix ''screenshot_'' n \<and> is_file e) st"
  have "distinct (map fst ?ms)"
    using assms by (rule distinct_map_filter)
  moreover have "inj_on (\<lambda>(n, e). file_info n e) (set ?ms)"
  proof (rule inj_onI)
    fix x y
    assume x: "x \<in> set ?ms" and y: "y \<in> set ?ms"
      and eq: "(case x of (n, e) \<Rightarrow> file_info n e) = (case y of (n, e) \<Rightarrow> file_info n e)"
    from eq have "fst x = fst y"
      by (cases x; cases y) (auto dest: file_info_name)
    with x y \<open>distinct (map fst ?ms)\<close> show "x = y"
      by (metis (no_types, lifting) distinct_map inj_onD)
  qed
  moreover have "distinct ?ms"
    using \<open>distinct (map fst ?ms)\<close> by (simp add: distinct_map)
  ultimately show ?thesis
    by (simp add: list_loop_filter distinct_map)
qed

lemma list_loop_set:
  assumes "distinct (map fst st)"
  shows "set (list_loop st []) =
     {file_info name (RegularFile bs t) | name bs t.
        map_of st name = Some (RegularFile bs t) \<and> prefix ''screenshot_'' name}"
  using assms
  by (auto simp add: list_loop_filter is_file_iff image_iff) force

lemma list_loop_length:
  assumes "distinct (map fst st)"
  shows "length (list_loop st []) =
     card {name. prefix ''screenshot_'' name \<and>
             (\<exists>bs t. map_of st name = Some (RegularFile bs t))}"
proof -
  let ?ms = "filter (\<lambda>(n, e). prefix ''screenshot_'' n \<and> is_file e) st"
  have d: "distinct (map fst ?ms)"
    using assms by (rule distinct_map_filter)
  have "set (map fst ?ms) = {name. prefix ''screenshot_'' name \<and>
             (\<exists>bs t. map_of st name = Some (RegularFile bs t))}"
    using assms by (auto simp add: is_file_iff image_iff) blast+
  then have "card {name. prefix ''screenshot_'' name \<and>
             (\<exists>bs t. map_of st name = Some (RegularFile bs t))} = length (map fst ?ms)"
    using distinct_card [OF d] by simp
  then show ?thesis
    by (simp add: list_loop_filter)
qed


text \<open>
  C8. \<open>GET /list\<close> answers with \<open>success\<close>, \<open>count\<close> and \<open>screenshots\<close>. In a
  directory, whose names are distinct, \<open>screenshots\<close> has no entry twice, its entries
  are the \<open>{filename, size, created}\<close> of the files whose name begins with
  \<open>screenshot_\<close>, and \<open>count\<close> is its length, which is the number of those files;
  other names, and entries that are not files, are left out.
\<close>

theorem list_counts_matching_files:
  assumes "distinct (map fst (storage w))"
  shows "\<exists>shots. get_list w =
           Response 200 (JsonBody (JObj [(''success'', JBool True),
              (''count'', JNum (int (length shots))), (''screenshots'', JArr shots)])) \<and>
         distinct shots \<and>
         set shots = {file_info name (RegularFile bs t) | name bs t.
            map_of (storage w) name = Some (RegularFile bs t) \<and> prefix ''screenshot_'' name} \<and>
         length shots = card {name. prefix ''screenshot_'' name \<and>
            (\<exists>bs t. map_of (storage w) name = Some (RegularFile bs t))}"
proof (intro exI conjI)
  show "get_list w =
      Response 200 (JsonBody (JObj [(''success'', JBool True),
        (''count'', JNum (int (length (list_loop (storage w) [])))),
        (''screenshots'', JArr (list_loop (storage w) []))]))"
    by (simp add: get_list_def list_screenshots_def respond_def Let_def)
  show "distinct (list_loop (storage w) [])"
    using assms by (rule list_loop_distinct)
  show "set (list_loop (storage w) []) =
      {file_info name (RegularFile bs t) | name bs t.
         map_of (storage w) name = Some (RegularFile bs t) \<and> prefix ''screenshot_'' name}"
    using assms by (rule list_loop_set)
  show "length (list_loop (storage w) []) =
      card {name. prefix ''screenshot_'' name \<and>
         (\<exists>bs t. map_of (storage w) name = Some (RegularFile bs t))}"
    using assms by (rule list_loop_length)
qed

lemma get_list_w_stored:
  "get_list w_stored =
     Response 200 (JsonBody (JObj [(''success'', JBool True), (''count'', JNum 2),
       (''screenshots'', JArr
          [JObj [(''filename'', JStr ''screenshot_0a.png''), (''size'', JNum 4),
                 (''created'', JNum 5)],
           JObj [(''filename'', JStr ''screenshot_1b.jpg''), (''size'', JNum 3),
                 (''created'', JNum 7)]])]))"
  by (simp add: get_list_def list_screenshots_def respond_def Let_def w_stored_def)

theorem list_counts_matching_files_witness:
  "distinct (map fst (storage w_stored)) \<and>
   get_list w_stored =
     Response 200 (JsonBody (JObj [(''success'', JBool True), (''count'', JNum 2),
       (''screenshots'', JArr
          [JObj [(''filename'', JStr ''screenshot_0a.png''), (''size'', JNum 4),
                 (''created'', JNum 5)],
           JObj [(''filename'', JStr ''screenshot_1b.jpg''), (''size'', JNum 3),
                 (''created'', JNum 7)]])])) \<and>
   card {name. prefix ''screenshot_'' name \<and>
      (\<exists>bs t. map_of (storage w_stored) name = Some (RegularFile bs t))} = 2"
proof -
  have d: "distinct (map fst (storage w_stored))"
    by (simp add: w_stored_def)
  from list_counts_matching_files [OF d] obtain shots where
    g: "get_list w_stored =
           Response 200 (JsonBody (JObj [(''success'', JBool True),
              (''count'', JNum (int (length shots))), (''screenshots'', JArr shots)]))"
    and c: "length shots = card {name. prefix ''screenshot_'' name \<and>
            (\<exists>bs t. map_of (storage w_stored) name = Some (RegularFile bs t))}"
    by blast
  from g have "length shots = 2"
    by (simp add: get_list_w_stored)
  with c d show ?thesis
    by (simp add: get_list_w_stored)
qed

subsection \<open>A capture that returns, and the names of the directory\<close>

text \<open>
  With a browser that raises nowhere \<open>capture_screenshot\<close> returns: it makes its eight
  calls in order and writes one file under the name it returns.
\<close>

lemma capture_returns:
  assumes "\<And>st. raises eng st = None"
  shows "capture_screenshot hex eng u wd ht fp fmt q t w =
     (Inr (''screenshot_'' @ hex @ ''.'' @ (if fmt = ''png'' then ''png'' else ''jpg'')),
      w\<lparr>captures := captures w @ [CaptureCall u wd ht fp fmt q t],
        engine_calls := engine_calls w @
          [CLaunch, CNewContext wd ht, CNewPage, CSetDefaultTimeout t, CGoto u, CSleep 2,
           CScreenshot (screenshot_options
              (TEMP_DIR @ ''/'' @ ''screenshot_'' @ hex @ ''.'' @
                 (if fmt = ''png'' then ''png'' else ''jpg'')) fp fmt q),
           CClose],
        storage := AList.update
          (''screenshot_'' @ hex @ ''.'' @ (if fmt = ''png'' then ''png'' else ''jpg''))
          (RegularFile (image eng) (clock eng)) (storage w)\<rparr>)"
  by (simp add: capture_screenshot_def capture_body_def and_then_def engine_call_def
      browser_close_def assms Let_def)

text \<open>
  The hypothesis of C8 is kept by the handlers that write: names stay distinct after a
  capture and after a delete.
\<close>

lemma capture_body_storage:
  "storage (snd (capture_body eng fn u wd ht fp fmt q t w)) = storage w \<or>
   storage (snd (capture_body eng fn u wd ht fp fmt q t w)) =
     AList.update fn (RegularFile (image eng) (clock eng)) (storage w)"
  by (simp add: capture_body_def and_then_def engine_call_def Let_def split: option.splits)

lemma capture_keeps_names_distinct:
  assumes "distinct (map fst (storage w))"
  shows "distinct (map fst (storage (snd (capture_screenshot hex eng u wd ht fp fmt q t w))))"
proof -
  let ?fn = "''screenshot_'' @ hex @ ''.'' @ (if fmt = ''png'' then ''png'' else ''jpg'')"
  let ?w1 = "w\<lparr>captures := captures w @ [CaptureCall u wd ht fp fmt q t],
               engine_calls := engine_calls w @ [CLaunch],
               browsers := Suc (browsers w)\<rparr>"
  have "storage (snd (capture_screenshot hex eng u wd ht fp fmt q t w)) = storage w \<or>
      storage (snd (capture_screenshot hex eng u wd ht fp fmt q t w)) =
        storage (snd (capture_body eng ?fn u wd ht fp fmt q t ?w1))"
    by (simp add: capture_screenshot_def engine_call_def Let_def case_prod_beta browser_close_def
        split: option.splits sum.splits)
  with capture_body_storage [of eng ?fn u wd ht fp fmt q t ?w1] assms
  show ?thesis
    by (auto simp add: AList.distinct_update)
qed

lemma delete_keeps_names_distinct:
  assumes "distinct (map fst (storage w))"
  shows "distinct (map fst (storage (snd (delete_screenshot filename w))))"
  using assms
  by (auto simp add: delete_screenshot_def os_remove_def path_exists_def AList.distinct_delete
      split: option.splits entry.splits sum.splits bool.splits)

end
